theory Spec2Isabelle
  imports Complex_Main "HOL-Library.Sublist"
begin

section \<open>Python values and exceptions\<close>

text \<open>
  Exceptions are values. Every constructor is a subclass of Python's \<open>Exception\<close>, so an
  \<open>except Exception\<close> clause catches each of them. \<open>BackendError msg\<close> is an exception
  raised by an external client (a model constructor or a model call) whose \<open>str(e)\<close> is
  \<open>msg\<close>.
\<close>

datatype py_exception =
  ValueError | TypeError | IndexError | AttributeError | JSONDecodeError | BackendError string

text \<open>
  Dynamically typed Python values, as a JSON decoder produces them and as a configuration
  mapping holds them. A float is represented by the real number it denotes (the modelled
  code performs no float arithmetic); a dict is an association list in insertion order.
\<close>

datatype pyval =
  PNone
  | PBool bool
  | PInt int
  | PFloat real
  | PStr string
  | PList "pyval list"
  | PDict "(string \<times> pyval) list"

section \<open>review\_summarizer.py: ReviewSummary\<close>

text \<open>
  The dataclass \<open>ReviewSummary\<close>. Its annotations (\<open>str\<close>, \<open>float\<close>, \<open>List[str]\<close>,
  \<open>Dict[str, str]\<close>) are not enforced by Python, so each field holds whatever value the
  constructor was given.
\<close>

record ReviewSummary =
  overall_sentiment :: pyval
  purchase_intent_percentage :: pyval
  confidence_score :: pyval
  key_strengths :: pyval
  key_concerns :: pyval
  demographic_insights :: pyval
  common_themes :: pyval
  recommendation :: pyval
  detailed_summary :: pyval

definition ReviewSummary_fields :: "string list" where
  "ReviewSummary_fields =
     [''overall_sentiment'', ''purchase_intent_percentage'', ''confidence_score'',
      ''key_strengths'', ''key_concerns'', ''demographic_insights'', ''common_themes'',
      ''recommendation'', ''detailed_summary'']"

text \<open>
  \<open>cls(**data)\<close>: the generated \<open>__init__\<close> takes exactly the nine fields as keyword
  arguments. An unexpected keyword and a missing one both raise \<open>TypeError\<close>; the values
  themselves are not inspected.
\<close>

definition ReviewSummary_init :: "(string \<times> pyval) list \<Rightarrow> py_exception + ReviewSummary" where
  "ReviewSummary_init kwargs =
     (if \<not> set (map fst kwargs) \<subseteq> set ReviewSummary_fields then Inl TypeError
      else if \<not> set ReviewSummary_fields \<subseteq> set (map fst kwargs) then Inl TypeError
      else Inr \<lparr>
        overall_sentiment = the (map_of kwargs ''overall_sentiment''),
        purchase_intent_percentage = the (map_of kwargs ''purchase_intent_percentage''),
        confidence_score = the (map_of kwargs ''confidence_score''),
        key_strengths = the (map_of kwargs ''key_strengths''),
        key_concerns = the (map_of kwargs ''key_concerns''),
        demographic_insights = the (map_of kwargs ''demographic_insights''),
        common_themes = the (map_of kwargs ''common_themes''),
        recommendation = the (map_of kwargs ''recommendation''),
        detailed_summary = the (map_of kwargs ''detailed_summary'') \<rparr>)"

text \<open>\<open>self.__dict__\<close> of a dataclass instance: the fields in declaration order.\<close>

definition ReviewSummary_dict :: "ReviewSummary \<Rightarrow> (string \<times> pyval) list" where
  "ReviewSummary_dict r =
     [(''overall_sentiment'', overall_sentiment r),
      (''purchase_intent_percentage'', purchase_intent_percentage r),
      (''confidence_score'', confidence_score r),
      (''key_strengths'', key_strengths r),
      (''key_concerns'', key_concerns r),
      (''demographic_insights'', demographic_insights r),
      (''common_themes'', common_themes r),
      (''recommendation'', recommendation r),
      (''detailed_summary'', detailed_summary r)]"

text \<open>\<open>s.find(c)\<close>: the index of the first occurrence, or \<open>-1\<close>.\<close>

fun str_find :: "char \<Rightarrow> string \<Rightarrow> int" where
  "str_find c [] = - 1"
| "str_find c (x # xs) =
     (if x = c then 0 else (let i = str_find c xs in if i < 0 then - 1 else i + 1))"

text \<open>\<open>s[i:]\<close>: a negative start counts from the end and is clipped at the beginning.\<close>

definition slice_from :: "string \<Rightarrow> int \<Rightarrow> string" where
  "slice_from s i = (if i < 0 then drop (nat (int (length s) + i)) s else drop (nat i) s)"

text \<open>
  The value \<open>from_json\<close> returns after either \<open>except\<close> clause.
\<close>

definition fallback_summary :: ReviewSummary where
  "fallback_summary = \<lparr>
     overall_sentiment = PStr ''Neutral'',
     purchase_intent_percentage = PFloat 0,
     confidence_score = PFloat 0,
     key_strengths = PList [PStr ''Unable to parse review''],
     key_concerns = PList [PStr ''Unable to parse review''],
     demographic_insights = PDict [(''error'', PStr ''Unable to parse review'')],
     common_themes = PList [PStr ''Unable to parse review''],
     recommendation = PStr ''Unable to generate recommendation due to parsing error'',
     detailed_summary = PStr ''Unable to generate summary due to parsing error'' \<rparr>"

text \<open>
  \<open>json.JSONDecoder().raw_decode\<close> and \<open>json.dumps(_, indent=2)\<close> belong to Python's
  standard library, not to this repository; they are parameters of the model. A decoder
  takes the text and either raises or returns the decoded value with the index where it
  stopped.
\<close>

type_synonym json_decoder = "string \<Rightarrow> py_exception + (pyval \<times> nat)"


text \<open>The body of the \<open>try\<close> block of \<open>ReviewSummary.from_json\<close>.\<close>

definition from_json_try :: "json_decoder \<Rightarrow> string \<Rightarrow> py_exception + ReviewSummary" where
  "from_json_try raw_decode json_str =
     (let start_index = str_find (CHR ''{'') json_str;
          json_string = slice_from json_str start_index
      in case raw_decode json_string of
           Inl e \<Rightarrow> Inl e
         | Inr (data, _) \<Rightarrow>
             (case data of
                PDict kwargs \<Rightarrow> ReviewSummary_init kwargs
              | _ \<Rightarrow> Inl ValueError))"

text \<open>
  \<open>ReviewSummary.from_json\<close>: both handlers (\<open>json.JSONDecodeError\<close>, then
  \<open>Exception\<close>) only log and fall through to the fallback value.
\<close>

definition from_json :: "json_decoder \<Rightarrow> string \<Rightarrow> ReviewSummary" where
  "from_json raw_decode json_str =
     (case from_json_try raw_decode json_str of
        Inr summary \<Rightarrow> summary
      | Inl e \<Rightarrow> fallback_summary)"


text \<open>
  An example summary and the text \<open>json.dumps(_, indent=2)\<close> gives for its \<open>__dict__\<close>;
  they instantiate the encoder and the decoder in the examples below.
\<close>

definition example_summary :: ReviewSummary where
  "example_summary = \<lparr>
     overall_sentiment = PStr ''Positive'',
     purchase_intent_percentage = PFloat 72.5,
     confidence_score = PFloat 80,
     key_strengths = PList [PStr ''Sharp display''],
     key_concerns = PList [PStr ''Weak speakers''],
     demographic_insights = PDict [(''age_based'', PStr ''Popular among users aged 25-34'')],
     common_themes = PList [PStr ''Value for money''],
     recommendation = PStr ''Recommended for home offices'',
     detailed_summary = PStr ''Reviewers liked the monitor.'' \<rparr>"

definition example_summary_json :: string where
  \<open>example_summary_json =
     concat (map (\<lambda>l. l @ [CHR 0x0A])
       [''{'',
        ''  "overall_sentiment": "Positive",'',
        ''  "purchase_intent_percentage": 72.5,'',
        ''  "confidence_score": 80.0,'',
        ''  "key_strengths": ['',
        ''    "Sharp display"'',
        ''  ],'',
        ''  "key_concerns": ['',
        ''    "Weak speakers"'',
        ''  ],'',
        ''  "demographic_insights": {'',
        ''    "age_based": "Popular among users aged 25-34"'',
        ''  },'',
        ''  "common_themes": ['',
        ''    "Value for money"'',
        ''  ],'',
        ''  "recommendation": "Recommended for home offices",'',
        ''  "detailed_summary": "Reviewers liked the monitor."''])
     @ ''}''\<close>

text \<open>
  A decoder that knows one text: it returns \<open>data\<close> on \<open>text\<close> and raises on anything
  else.
\<close>

definition example_decoder :: "string \<Rightarrow> pyval \<Rightarrow> json_decoder" where
  "example_decoder text data =
     (\<lambda>t. if t = text then Inr (data, length text) else Inl JSONDecodeError)"

section \<open>product\_reviewer.py: provider construction\<close>

datatype AIProvider = GEMINI | OPENAI

definition AIProvider_value :: "AIProvider \<Rightarrow> string" where
  "AIProvider_value p = (case p of GEMINI \<Rightarrow> ''gemini'' | OPENAI \<Rightarrow> ''openai'')"

text \<open>\<open>AIProvider(x)\<close>: the member whose value is \<open>x\<close>, or \<open>ValueError\<close>.\<close>

definition AIProvider_of :: "string \<Rightarrow> py_exception + AIProvider" where
  "AIProvider_of x =
     (if x = ''gemini'' then Inr GEMINI
      else if x = ''openai'' then Inr OPENAI
      else Inl ValueError)"

text \<open>\<open>str.lower()\<close> on the ASCII letters.\<close>

definition str_lower :: "string \<Rightarrow> string" where
  "str_lower s =
     map (\<lambda>c. if 65 \<le> (of_char c :: nat) \<and> (of_char c :: nat) \<le> 90
              then char_of (of_char c + (32 :: nat)) else c) s"

text \<open>
  A configuration mapping: keyword name to value. The model clients
  (\<open>ChatGoogleGenerativeAI\<close>, \<open>ChatOpenAI\<close>) are external; their constructor is the parameter
  \<open>make_client\<close>, which receives the provider and the keyword arguments and returns a client
  or raises.
\<close>

type_synonym config = "string \<rightharpoonup> pyval"

record 'c ProductReviewer =
  provider :: AIProvider
  api_key :: string
  model_config :: config
  model :: "'c option"

definition default_config :: "AIProvider \<Rightarrow> string \<Rightarrow> config" where
  "default_config p key =
     (case p of
        GEMINI \<Rightarrow> [''model'' \<mapsto> PStr ''gemini-1.5-pro'',
                    ''temperature'' \<mapsto> PFloat 0.7,
                    ''google_api_key'' \<mapsto> PStr key]
      | OPENAI \<Rightarrow> [''model'' \<mapsto> PStr ''gpt-4o-mini'',
                    ''temperature'' \<mapsto> PFloat 0.7,
                    ''openai_api_key'' \<mapsto> PStr key])"

text \<open>\<open>config = {**default_config, **self.model_config}\<close>\<close>

definition merged_config :: "'c ProductReviewer \<Rightarrow> config" where
  "merged_config r = default_config (provider r) (api_key r) ++ model_config r"

text \<open>
  \<open>ProductReviewer._initialize_model\<close>: both branches build the defaults, merge the
  caller's mapping over them and pass the result to the client constructor; an exception of
  the constructor is logged and raised again.
\<close>

definition initialize_model ::
  "(AIProvider \<Rightarrow> config \<Rightarrow> py_exception + 'c) \<Rightarrow> 'c ProductReviewer
     \<Rightarrow> py_exception + 'c ProductReviewer" where
  "initialize_model make_client r =
     (case make_client (provider r) (merged_config r) of
        Inl e \<Rightarrow> Inl e
      | Inr client \<Rightarrow> Inr (r\<lparr>model := Some client\<rparr>))"

text \<open>
  \<open>ProductReviewer.__init__\<close>: \<open>AIProvider(provider.lower())\<close>,
  \<open>self.model_config = model_config or {}\<close>, \<open>self.model = None\<close>, then
  \<open>_initialize_model\<close>.
\<close>

definition ProductReviewer_init ::
  "(AIProvider \<Rightarrow> config \<Rightarrow> py_exception + 'c) \<Rightarrow> string \<Rightarrow> string \<Rightarrow> config option
     \<Rightarrow> py_exception + 'c ProductReviewer" where
  "ProductReviewer_init make_client provider_name key cfg =
     (case AIProvider_of (str_lower provider_name) of
        Inl e \<Rightarrow> Inl e
      | Inr p \<Rightarrow>
          initialize_model make_client
            \<lparr>provider = p, api_key = key,
             model_config = (case cfg of None \<Rightarrow> Map.empty | Some m \<Rightarrow> m),
             model = None\<rparr>)"

section \<open>persona\_selector.py: data\<close>

text \<open>
  The dataclass \<open>PersonaSelectionCriteria\<close>. Its field \<open>constraints\<close> is called
  \<open>wanted_constraints\<close> here, since \<open>SelectedPersona\<close> has a field of the same name; the
  code never reads it.
\<close>

record PersonaSelectionCriteria =
  age_range :: "(int \<times> int) option"
  professions :: "string list option"
  nationalities :: "string list option"
  salary_ranges :: "string list option"
  desired_hobbies :: "string list option"
  desired_priorities :: "string list option"
  wanted_constraints :: "string list option"
  min_matching_hobbies :: int
  min_matching_priorities :: int

text \<open>The dataclass \<open>SelectedPersona\<close>, with the types it declares.\<close>

record SelectedPersona =
  name :: string
  age :: int
  profession :: string
  nationality :: string
  salary_range :: string
  hobbies :: "string list"
  priorities :: "string list"
  constraints :: "string list"

text \<open>
  A row of a DataFrame of personas: the eight columns of the store and the three columns
  \<open>_filter_personas\<close> adds. \<open>None\<close> is a missing value (the column is absent, or the
  cell is NaN after a concatenation).
\<close>

record row = SelectedPersona +
  hobby_match_count :: "int option"
  priority_match_count :: "int option"
  total_score :: "int option"

type_synonym frame = "row list"

type_synonym addr = nat

text \<open>
  The dict \<open>self.unique_values\<close>: its six keys, each with the list of distinct values
  (the key \<open>'hobbies'\<close> is the field \<open>uv_hobbies\<close>, and so on).
\<close>

record unique_values =
  uv_professions :: "string list"
  uv_nationalities :: "string list"
  uv_salary_ranges :: "string list"
  uv_hobbies :: "string list"
  uv_priorities :: "string list"
  uv_constraints :: "string list"

text \<open>
  The state the program runs in. DataFrames are mutable objects: \<open>frames\<close> maps the address
  of each DataFrame to its rows, and \<open>next_addr\<close> is the first address not yet in use.
  \<open>self_df\<close> and \<open>self_unique_values\<close> are the two attributes of the \<open>PersonaSelector\<close>:
  the address of the loaded store and the cached catalog. What the program does not decide
  is scripted by the state: \<open>random_draws\<close> are the numbers the random generators will draw,
  \<open>backend_replies\<close> the outcomes of the calls to the model clients to come (\<open>Inl msg\<close>: the
  call raises an exception whose text is \<open>msg\<close>; \<open>Inr text\<close>: it returns a response with
  that content), and \<open>clock\<close> the timestamps \<open>datetime.now().isoformat()\<close> will return.
\<close>

record world =
  frames :: "addr \<Rightarrow> frame"
  next_addr :: addr
  self_df :: addr
  self_unique_values :: unique_values
  random_draws :: "nat list"
  backend_replies :: "(string + string) list"
  clock :: "string list"

text \<open>
  A computation takes the state and returns a result or a raised exception, with the new
  state. \<open>bind\<close> is sequencing: an exception of the first computation skips the second.
\<close>

type_synonym 'a py = "world \<Rightarrow> (py_exception + 'a) \<times> world"

definition return :: "'a \<Rightarrow> 'a py" where
  "return x w = (Inr x, w)"

definition raise :: "py_exception \<Rightarrow> 'a py" where
  "raise e w = (Inl e, w)"

definition bind :: "'a py \<Rightarrow> ('a \<Rightarrow> 'b py) \<Rightarrow> 'b py" where
  "bind m f w = (case m w of (Inl e, w') \<Rightarrow> (Inl e, w') | (Inr x, w') \<Rightarrow> f x w')"

subsection \<open>The random module\<close>

text \<open>
  The functions of Python's \<open>random\<close> module, by their documented results: every outcome
  the library can produce is the outcome for some list of draws. With no draw left the
  draw is \<open>0\<close>.
\<close>

definition draw :: "nat py" where
  "draw w = (case random_draws w of
               [] \<Rightarrow> (Inr 0, w)
             | d # ds \<Rightarrow> (Inr d, w\<lparr>random_draws := ds\<rparr>))"

text \<open>\<open>random.randint(a, b)\<close>: an integer of \<open>[a, b]\<close>; \<open>ValueError\<close> on an empty range.\<close>

definition randint :: "int \<Rightarrow> int \<Rightarrow> int py" where
  "randint a b =
     (if b < a then raise ValueError
      else bind draw (\<lambda>d. return (a + int d mod (b - a + 1))))"

text \<open>\<open>random.choice(seq)\<close>: an element of \<open>seq\<close>; \<open>IndexError\<close> on an empty sequence.\<close>

definition choice :: "'a list \<Rightarrow> 'a py" where
  "choice seq =
     (if seq = [] then raise IndexError
      else bind draw (\<lambda>d. return (seq ! (d mod length seq))))"

text \<open>
  \<open>random.sample(population, k)\<close>: \<open>k\<close> elements taken at distinct positions, in the order
  they are drawn; \<open>ValueError\<close> when \<open>k\<close> is negative or larger than the population.
\<close>

fun sample_loop :: "'a list \<Rightarrow> nat \<Rightarrow> 'a list py" where
  "sample_loop pool 0 = return []"
| "sample_loop pool (Suc k) =
     (if pool = [] then return []
      else bind draw (\<lambda>d.
           bind (sample_loop (take (d mod length pool) pool @ drop (Suc (d mod length pool)) pool) k)
             (\<lambda>rest. return (pool ! (d mod length pool) # rest))))"

definition sample :: "'a list \<Rightarrow> int \<Rightarrow> 'a list py" where
  "sample population k =
     (if k < 0 \<or> int (length population) < k then raise ValueError
      else sample_loop population (nat k))"

subsection \<open>Helpers\<close>

text \<open>\<open>str(n)\<close> of an integer, as an f-string formats it.\<close>

fun str_of_nat :: "nat \<Rightarrow> string" where
  "str_of_nat n =
     (if n < 10 then [''0123456789'' ! n]
      else str_of_nat (n div 10) @ [''0123456789'' ! (n mod 10)])"

declare str_of_nat.simps [simp del]

definition str_of_int :: "int \<Rightarrow> string" where
  "str_of_int i = (if i < 0 then ''-'' @ str_of_nat (nat (- i)) else str_of_nat (nat i))"

text \<open>
  The truth value of an optional list, as in \<open>if criteria.professions:\<close>: \<open>None\<close> and the
  empty list are false. \<open>items\<close> are the elements of the list.
\<close>

definition truthy :: "'a list option \<Rightarrow> bool" where
  "truthy xs = (case xs of None \<Rightarrow> False | Some ys \<Rightarrow> ys \<noteq> [])"

definition items :: "'a list option \<Rightarrow> 'a list" where
  "items xs = (case xs of None \<Rightarrow> [] | Some ys \<Rightarrow> ys)"

subsection \<open>PersonaSelector.\_generate\_random\_persona\<close>

text \<open>
  The first values of a multi-valued field: with a desired list,
  \<open>random.sample(desired, min(min_matching, len(desired)))\<close>; otherwise none.
\<close>

definition seeded :: "string list option \<Rightarrow> int \<Rightarrow> string list py" where
  "seeded desired min_matching =
     (if truthy desired
      then sample (items desired) (min min_matching (int (length (items desired))))
      else return [])"

text \<open>
  The random calls in the order the code makes them. The handler of the \<open>try\<close> block logs
  the exception and raises it again.
\<close>

definition generate_random_persona :: "PersonaSelectionCriteria \<Rightarrow> SelectedPersona py" where
  "generate_random_persona criteria w0 =
    (let uv = self_unique_values w0 in
     bind (randint 1000 9999) (\<lambda>n.
     bind (case age_range criteria of
             Some (lo, hi) \<Rightarrow> randint lo hi
           | None \<Rightarrow> randint 18 80) (\<lambda>age'.
     bind (choice (if truthy (professions criteria) then items (professions criteria)
                   else uv_professions uv)) (\<lambda>profession'.
     bind (choice (if truthy (nationalities criteria) then items (nationalities criteria)
                   else uv_nationalities uv)) (\<lambda>nationality'.
     bind (choice (if truthy (salary_ranges criteria) then items (salary_ranges criteria)
                   else uv_salary_ranges uv)) (\<lambda>salary_range'.
     bind (seeded (desired_hobbies criteria) (min_matching_hobbies criteria)) (\<lambda>hobbies0.
     bind (randint 1 3) (\<lambda>k_hobbies.
     bind (sample (filter (\<lambda>h. h \<notin> set hobbies0) (uv_hobbies uv)) k_hobbies) (\<lambda>remaining_hobbies.
     bind (seeded (desired_priorities criteria) (min_matching_priorities criteria)) (\<lambda>priorities0.
     bind (randint 1 2) (\<lambda>k_priorities.
     bind (sample (filter (\<lambda>p. p \<notin> set priorities0) (uv_priorities uv)) k_priorities)
       (\<lambda>remaining_priorities.
     bind (randint 1 2) (\<lambda>k_constraints.
     bind (sample (uv_constraints uv) k_constraints) (\<lambda>constraints'.
     return \<lparr>name = ''RandomPersona_'' @ str_of_int n,
             age = age',
             profession = profession',
             nationality = nationality',
             salary_range = salary_range',
             hobbies = hobbies0 @ remaining_hobbies,
             priorities = priorities0 @ remaining_priorities,
             constraints = constraints'\<rparr>)))))))))))))) w0"

subsection \<open>DataFrame operations\<close>

text \<open>
  The pandas operations \<open>_filter_personas\<close> uses. Each one that builds a DataFrame
  allocates a new object; a column assignment changes the object it is applied to.
\<close>

definition df_new :: "frame \<Rightarrow> addr py" where
  "df_new rows w =
     (Inr (next_addr w),
      w\<lparr>frames := (frames w)(next_addr w := rows), next_addr := Suc (next_addr w)\<rparr>)"

definition df_rows :: "addr \<Rightarrow> frame py" where
  "df_rows a w = (Inr (frames w a), w)"

text \<open>\<open>df.copy()\<close>\<close>

definition df_copy :: "addr \<Rightarrow> addr py" where
  "df_copy a = bind (df_rows a) df_new"

text \<open>\<open>df[mask]\<close>: the rows the boolean mask keeps, as a new DataFrame.\<close>

definition df_mask :: "(row \<Rightarrow> bool) \<Rightarrow> addr \<Rightarrow> addr py" where
  "df_mask keep a = bind (df_rows a) (\<lambda>rows. df_new (filter keep rows))"

text \<open>\<open>df[column] = ...\<close>, the new cell computed from each row: in place.\<close>

definition df_set_column :: "(row \<Rightarrow> row) \<Rightarrow> addr \<Rightarrow> unit py" where
  "df_set_column f a w = (Inr (), w\<lparr>frames := (frames w)(a := map f (frames w a))\<rparr>)"

text \<open>\<open>pd.concat([a, b], ignore_index=True)\<close>\<close>

definition pd_concat :: "addr \<Rightarrow> addr \<Rightarrow> addr py" where
  "pd_concat a b = bind (df_rows a) (\<lambda>xs. bind (df_rows b) (\<lambda>ys. df_new (xs @ ys)))"

text \<open>
  \<open>df.nlargest(n, 'total_score')\<close>: no row when \<open>n \<le> 0\<close>; otherwise the first \<open>n\<close> rows
  by descending score, rows of equal score in their original order, rows without a score
  last.
\<close>

definition nlargest_rows :: "int \<Rightarrow> frame \<Rightarrow> frame" where
  "nlargest_rows n rows =
     (if n \<le> 0 then []
      else take (nat n)
             (sort_key (\<lambda>r. - the (total_score r)) (filter (\<lambda>r. total_score r \<noteq> None) rows)
              @ filter (\<lambda>r. total_score r = None) rows))"

definition df_nlargest :: "int \<Rightarrow> addr \<Rightarrow> addr py" where
  "df_nlargest n a = bind (df_rows a) (\<lambda>rows. df_new (nlargest_rows n rows))"

text \<open>
  \<open>df.sample(n)\<close>: \<open>n\<close> rows drawn without replacement; \<open>ValueError\<close> when \<open>n\<close> is negative
  or larger than the number of rows.
\<close>

definition df_sample :: "int \<Rightarrow> addr \<Rightarrow> addr py" where
  "df_sample n a = bind (df_rows a) (\<lambda>rows. bind (sample rows n) df_new)"

definition get_self_df :: "addr py" where
  "get_self_df w = (Inr (self_df w), w)"

subsection \<open>PersonaSelector.\_filter\_personas\<close>

text \<open>
  A generated persona as a row of \<open>random_df\<close>, and \<open>SelectedPersona.from_series\<close>, which
  reads the eight fields of a row.
\<close>

definition as_row :: "SelectedPersona \<Rightarrow> row" where
  "as_row p = SelectedPersona.extend p
     \<lparr>hobby_match_count = None, priority_match_count = None, total_score = None\<rparr>"

definition from_series :: "row \<Rightarrow> SelectedPersona" where
  "from_series r = SelectedPersona.truncate r"

text \<open>\<open>len(set(x) & set(desired))\<close>\<close>

definition match_count :: "string list \<Rightarrow> string list option \<Rightarrow> int" where
  "match_count x desired = int (card (set x \<inter> set (items desired)))"

text \<open>\<open>count >= minimum\<close> on a cell: false on a missing value.\<close>

definition at_least :: "int \<Rightarrow> int option \<Rightarrow> bool" where
  "at_least m c = (case c of None \<Rightarrow> False | Some v \<Rightarrow> m \<le> v)"

text \<open>The part under the comment \<open># Apply filters\<close>.\<close>

definition apply_filters :: "PersonaSelectionCriteria \<Rightarrow> addr \<Rightarrow> addr py" where
  "apply_filters criteria filtered_df =
     bind (case age_range criteria of
             Some (lo, hi) \<Rightarrow> df_mask (\<lambda>r. lo \<le> age r \<and> age r \<le> hi) filtered_df
           | None \<Rightarrow> return filtered_df) (\<lambda>filtered_df.
     bind (if truthy (professions criteria)
           then df_mask (\<lambda>r. profession r \<in> set (items (professions criteria))) filtered_df
           else return filtered_df) (\<lambda>filtered_df.
     bind (if truthy (nationalities criteria)
           then df_mask (\<lambda>r. nationality r \<in> set (items (nationalities criteria))) filtered_df
           else return filtered_df) (\<lambda>filtered_df.
     (if truthy (salary_ranges criteria)
      then df_mask (\<lambda>r. salary_range r \<in> set (items (salary_ranges criteria))) filtered_df
      else return filtered_df))))"

text \<open>The part under the comment \<open># Apply complex filters\<close>.\<close>

definition apply_complex_filters :: "PersonaSelectionCriteria \<Rightarrow> addr \<Rightarrow> addr py" where
  "apply_complex_filters criteria filtered_df =
     bind (if truthy (desired_hobbies criteria)
           then bind (df_set_column
                        (\<lambda>r. r\<lparr>hobby_match_count :=
                                  Some (match_count (hobbies r) (desired_hobbies criteria))\<rparr>)
                        filtered_df) (\<lambda>_.
                df_mask (\<lambda>r. at_least (min_matching_hobbies criteria) (hobby_match_count r))
                  filtered_df)
           else return filtered_df) (\<lambda>filtered_df.
     (if truthy (desired_priorities criteria)
      then bind (df_set_column
                   (\<lambda>r. r\<lparr>priority_match_count :=
                             Some (match_count (priorities r) (desired_priorities criteria))\<rparr>)
                   filtered_df) (\<lambda>_.
           df_mask (\<lambda>r. at_least (min_matching_priorities criteria) (priority_match_count r))
             filtered_df)
      else return filtered_df))"

text \<open>
  The loop \<open>for _ in range(num_random_needed): random_personas.append(...)\<close>: an
  exception of one call ends the loop and the selection.
\<close>

fun random_personas :: "PersonaSelectionCriteria \<Rightarrow> nat \<Rightarrow> SelectedPersona list py" where
  "random_personas criteria 0 = return []"
| "random_personas criteria (Suc k) =
     bind (generate_random_persona criteria) (\<lambda>p.
     bind (random_personas criteria k) (\<lambda>ps. return (p # ps)))"

text \<open>The part under the comment \<open># Generate random personas if needed\<close>.\<close>

definition generate_if_needed ::
  "PersonaSelectionCriteria \<Rightarrow> int \<Rightarrow> bool \<Rightarrow> addr \<Rightarrow> addr py" where
  "generate_if_needed criteria num_personas randomize_if_insufficient filtered_df =
     bind (df_rows filtered_df) (\<lambda>rows.
     if int (length rows) < num_personas \<and> randomize_if_insufficient
     then bind (random_personas criteria (nat (num_personas - int (length rows)))) (\<lambda>ps.
          bind (df_new (map as_row ps)) (\<lambda>random_df.
          pd_concat filtered_df random_df))
     else return filtered_df)"

text \<open>
  \<open>filtered_df[score_columns].sum(axis=1)\<close>: the sum of the score columns in use, a
  missing value counting as \<open>0\<close>.
\<close>

definition score_sum :: "PersonaSelectionCriteria \<Rightarrow> row \<Rightarrow> int" where
  "score_sum criteria r =
     (if truthy (desired_hobbies criteria)
      then (case hobby_match_count r of None \<Rightarrow> 0 | Some c \<Rightarrow> c) else 0)
     + (if truthy (desired_priorities criteria)
        then (case priority_match_count r of None \<Rightarrow> 0 | Some c \<Rightarrow> c) else 0)"

text \<open>
  The part under the comment \<open># Ensure we don't exceed requested number of personas\<close>.
\<close>

definition limit_personas :: "PersonaSelectionCriteria \<Rightarrow> int \<Rightarrow> addr \<Rightarrow> addr py" where
  "limit_personas criteria num_personas filtered_df =
     bind (df_rows filtered_df) (\<lambda>rows.
     if int (length rows) > num_personas
     then (if truthy (desired_hobbies criteria) \<or> truthy (desired_priorities criteria)
           then bind (df_set_column (\<lambda>r. r\<lparr>total_score := Some (score_sum criteria r)\<rparr>)
                        filtered_df) (\<lambda>_.
                df_nlargest num_personas filtered_df)
           else df_sample num_personas filtered_df)
     else return filtered_df)"

text \<open>
  \<open>_filter_personas\<close>: a copy of the store, the four parts above in order. The handler
  logs the exception and raises it again.
\<close>

definition filter_personas :: "PersonaSelectionCriteria \<Rightarrow> int \<Rightarrow> bool \<Rightarrow> addr py" where
  "filter_personas criteria num_personas randomize_if_insufficient =
     bind get_self_df (\<lambda>df.
     bind (df_copy df) (\<lambda>filtered_df.
     bind (apply_filters criteria filtered_df) (\<lambda>filtered_df.
     bind (apply_complex_filters criteria filtered_df) (\<lambda>filtered_df.
     bind (generate_if_needed criteria num_personas randomize_if_insufficient filtered_df)
       (\<lambda>filtered_df.
     limit_personas criteria num_personas filtered_df)))))"

subsection \<open>PersonaSelector.get\_selected\_personas and get\_unique\_values\<close>

definition get_selected_personas ::
  "PersonaSelectionCriteria \<Rightarrow> int \<Rightarrow> bool \<Rightarrow> SelectedPersona list py" where
  "get_selected_personas criteria num_personas randomize_if_insufficient =
     bind (filter_personas criteria num_personas randomize_if_insufficient) (\<lambda>filtered_df.
     bind (df_rows filtered_df) (\<lambda>rows.
     return (map from_series rows)))"

text \<open>\<open>return self.unique_values.copy()\<close>: the caller gets a dict of its own.\<close>

definition get_unique_values :: "unique_values py" where
  "get_unique_values w = (Inr (self_unique_values w), w)"

section \<open>persona\_selector.py: loading the store\<close>

text \<open>
  \<open>PersonaSelector.__init__\<close> reads the store with \<open>pd.read_excel\<close>. A cell of the sheet
  is empty (\<open>Null\<close>: pandas gives NaN), a text or a number; \<open>Items\<close> is a cell that holds
  a Python list, which \<open>_convert_string_to_list\<close> produces. A table is its columns by
  name, all of one length. The typed rows of the selection above are the rows of a table
  whose cells have the types \<open>SelectedPersona\<close> declares.
\<close>

datatype cell = Null | Text string | Number int | Items "string list"

type_synonym table = "(string \<times> cell list) list"

definition required_columns :: "string list" where
  "required_columns =
     [''name'', ''age'', ''profession'', ''nationality'',
      ''salary_range'', ''hobbies'', ''priorities'', ''constraints'']"

definition list_columns :: "string list" where
  "list_columns = [''hobbies'', ''priorities'', ''constraints'']"

text \<open>\<open>df[col]\<close> and \<open>df[col] = cells\<close>\<close>

definition column :: "table \<Rightarrow> string \<Rightarrow> cell list" where
  "column df col = (case map_of df col of None \<Rightarrow> [] | Some cells \<Rightarrow> cells)"

definition set_column :: "table \<Rightarrow> string \<Rightarrow> cell list \<Rightarrow> table" where
  "set_column df col cells = map (\<lambda>(k, v). if k = col then (k, cells) else (k, v)) df"

text \<open>
  \<open>df[col].dtype == 'object'\<close>, as pandas infers the type of a column: a column of
  numbers and empty cells only is numeric; a column with a text or a list in it, or with no
  row at all, has the type \<open>object\<close>.
\<close>

definition is_object_dtype :: "cell list \<Rightarrow> bool" where
  "is_object_dtype cells =
     (cells = [] \<or> list_ex (\<lambda>c. case c of Text s \<Rightarrow> True | Items xs \<Rightarrow> True | _ \<Rightarrow> False) cells)"

text \<open>
  \<open>s.strip(chars)\<close>, the characters \<open>s.strip()\<close> removes (the ASCII ones), and
  \<open>s.split(sep)\<close> for a separator of one character.
\<close>

definition strip_chars :: "string \<Rightarrow> string \<Rightarrow> string" where
  "strip_chars chars s =
     rev (dropWhile (\<lambda>c. c \<in> set chars) (rev (dropWhile (\<lambda>c. c \<in> set chars) s)))"

definition whitespace :: string where
  "whitespace = [CHR '' '', CHR 0x09, CHR 0x0A, CHR 0x0B, CHR 0x0C, CHR 0x0D,
                 CHR 0x1C, CHR 0x1D, CHR 0x1E, CHR 0x1F]"

fun split_on :: "char \<Rightarrow> string \<Rightarrow> string list" where
  "split_on sep [] = [[]]"
| "split_on sep (c # cs) =
     (if c = sep then [] # split_on sep cs
      else (case split_on sep cs of
              [] \<Rightarrow> [[c]]
            | piece # pieces \<Rightarrow> (c # piece) # pieces))"

text \<open>
  \<open>PersonaSelector._convert_string_to_list\<close>: a list is returned as it is; an empty
  cell and the empty text give the empty list; a text is stripped of brackets and quotes and
  split at the commas, the empty pieces dropped; anything else gives the empty list.
\<close>

definition convert_string_to_list :: "cell \<Rightarrow> cell" where
  "convert_string_to_list v =
     (case v of
        Items xs \<Rightarrow> Items xs
      | Null \<Rightarrow> Items []
      | Text s \<Rightarrow>
          (if s = [] then Items []
           else (let cleaned = filter (\<lambda>c. c \<noteq> CHR 0x22)
                                 (filter (\<lambda>c. c \<noteq> CHR 0x27)
                                    (strip_chars [CHR ''['', CHR '']'', CHR 0x27, CHR 0x22] s))
                 in Items (map (strip_chars whitespace)
                             (filter (\<lambda>item. strip_chars whitespace item \<noteq> [])
                                (split_on (CHR '','') cleaned)))))
      | Number n \<Rightarrow> Items [])"

text \<open>
  \<open>PersonaSelector.prepare_dataframe\<close>: \<open>ValueError\<close> when a required column is missing;
  then each of the three list columns whose type is \<open>object\<close> is converted cell by cell.
\<close>

definition prepare_dataframe :: "table \<Rightarrow> py_exception + table" where
  "prepare_dataframe df =
     (let missing_columns = filter (\<lambda>col. col \<notin> set (map fst df)) required_columns
      in if missing_columns \<noteq> [] then Inl ValueError
         else Inr (foldl (\<lambda>df col.
                            if is_object_dtype (column df col)
                            then set_column df col (map convert_string_to_list (column df col))
                            else df)
                     df list_columns))"

text \<open>
  \<open>PersonaSelector._cache_unique_values\<close>. \<open>Series.unique().tolist()\<close> gives the distinct
  cells in the order of their first occurrence. \<open>for x in cell\<close> raises \<open>TypeError\<close> on a
  number and on NaN, and gives the characters of a text. \<open>list(set(...))\<close> gives the
  distinct values in an order Python does not specify (here the order of \<open>remdups\<close>).
\<close>

definition unique :: "cell list \<Rightarrow> cell list" where
  "unique cells = rev (remdups (rev cells))"

definition iterate :: "cell \<Rightarrow> py_exception + string list" where
  "iterate c =
     (case c of
        Items xs \<Rightarrow> Inr xs
      | Text s \<Rightarrow> Inr (map (\<lambda>ch. [ch]) s)
      | Null \<Rightarrow> Inl TypeError
      | Number n \<Rightarrow> Inl TypeError)"

fun flatten :: "cell list \<Rightarrow> py_exception + string list" where
  "flatten [] = Inr []"
| "flatten (c # cs) =
     (case iterate c of
        Inl e \<Rightarrow> Inl e
      | Inr xs \<Rightarrow> (case flatten cs of Inl e \<Rightarrow> Inl e | Inr ys \<Rightarrow> Inr (xs @ ys)))"

definition distinct_items :: "cell list \<Rightarrow> py_exception + cell list" where
  "distinct_items cells =
     (case flatten cells of Inl e \<Rightarrow> Inl e | Inr xs \<Rightarrow> Inr (map Text (remdups xs)))"

definition cache_unique_values :: "table \<Rightarrow> py_exception + (string \<times> cell list) list" where
  "cache_unique_values df =
     (case distinct_items (column df ''hobbies'') of
        Inl e \<Rightarrow> Inl e
      | Inr hs \<Rightarrow>
     (case distinct_items (column df ''priorities'') of
        Inl e \<Rightarrow> Inl e
      | Inr ps \<Rightarrow>
     (case distinct_items (column df ''constraints'') of
        Inl e \<Rightarrow> Inl e
      | Inr cs \<Rightarrow>
          Inr [(''professions'', unique (column df ''profession'')),
               (''nationalities'', unique (column df ''nationality'')),
               (''salary_ranges'', unique (column df ''salary_range'')),
               (''hobbies'', hs),
               (''priorities'', ps),
               (''constraints'', cs)])))"

text \<open>
  \<open>PersonaSelector.__init__\<close>: the outcome of \<open>pd.read_excel\<close> is its argument. The
  handler logs the exception and raises it again.
\<close>

record loaded_selector =
  loaded_df :: table
  loaded_unique_values :: "(string \<times> cell list) list"

definition PersonaSelector_init :: "py_exception + table \<Rightarrow> py_exception + loaded_selector" where
  "PersonaSelector_init read_excel =
     (case read_excel of
        Inl e \<Rightarrow> Inl e
      | Inr df \<Rightarrow>
     (case prepare_dataframe df of
        Inl e \<Rightarrow> Inl e
      | Inr df' \<Rightarrow>
     (case cache_unique_values df' of
        Inl e \<Rightarrow> Inl e
      | Inr uv \<Rightarrow> Inr \<lparr>loaded_df = df', loaded_unique_values = uv\<rparr>)))"

section \<open>utils.py and product.py\<close>

text \<open>
  The dataclass \<open>ReviewerProfile\<close>; its fields carry the prefix \<open>profile_\<close>, since
  \<open>SelectedPersona\<close> has fields of the same names.
\<close>

record ReviewerProfile =
  profile_profession :: string
  profile_age :: int
  profile_nationality :: string
  profile_salary_range :: string
  profile_priorities :: string
  profile_hobbies :: string
  profile_constraints :: string

text \<open>A message of a session: the dict \<open>add_message\<close> appends.\<close>

record session_message =
  role :: string
  content :: string
  timestamp :: string

text \<open>
  \<open>ReviewSession\<close>; its attribute \<open>confidence_score\<close> is called \<open>session_confidence_score\<close>
  here.
\<close>

record ReviewSession =
  messages :: "session_message list"
  final_review :: "string option"
  session_confidence_score :: real

definition ReviewSession_init :: ReviewSession where
  "ReviewSession_init = \<lparr>messages = [], final_review = None, session_confidence_score = 0\<rparr>"

text \<open>\<open>ReviewSession._get_timestamp\<close>: the next timestamp of the clock.\<close>

definition get_timestamp :: "string py" where
  "get_timestamp w = (case clock w of
                        [] \<Rightarrow> (Inr [], w)
                      | t # ts \<Rightarrow> (Inr t, w\<lparr>clock := ts\<rparr>))"

definition add_message :: "ReviewSession \<Rightarrow> string \<Rightarrow> string \<Rightarrow> ReviewSession py" where
  "add_message session role' content' =
     bind get_timestamp (\<lambda>t.
     return (session\<lparr>messages := messages session
                @ [\<lparr>role = role', content = content', timestamp = t\<rparr>]\<rparr>))"

text \<open>
  The dataclass \<open>Product\<close>; its field \<open>name\<close> is called \<open>product_name\<close> here.
\<close>

record Product =
  product_name :: string
  price :: string
  description :: string
  strengths :: "string list option"
  weaknesses :: "string list option"
  unique_features :: "string list option"

text \<open>\<open>sep.join(xs)\<close>\<close>

fun str_join :: "string \<Rightarrow> string list \<Rightarrow> string" where
  "str_join sep [] = []"
| "str_join sep [x] = x"
| "str_join sep (x # y # ys) = x @ sep @ str_join sep (y # ys)"

definition to_review_format :: "Product \<Rightarrow> string" where
  "to_review_format product =
     (let base_info =
          ''Review this product: '' @ product_name product @ [CHR 0x0A]
          @ ''        '' @ description product @ '' price: '' @ price product;
          optional_sections =
            (if truthy (strengths product)
             then [[CHR 0x0A, CHR 0x0A] @ ''Strengths:'' @ [CHR 0x0A]
                   @ str_join [CHR 0x0A] (items (strengths product))]
             else [])
            @ (if truthy (weaknesses product)
               then [[CHR 0x0A, CHR 0x0A] @ ''Weaknesses:'' @ [CHR 0x0A]
                     @ str_join [CHR 0x0A] (items (weaknesses product))]
               else [])
            @ (if truthy (unique_features product)
               then [[CHR 0x0A, CHR 0x0A] @ ''Uniqueness:'' @ [CHR 0x0A]
                     @ str_join [CHR 0x0A] (items (unique_features product))]
               else [])
      in base_info @ str_join [] optional_sections)"

text \<open>\<open>SelectedPersona.to_reviewer_profile\<close>\<close>

definition to_reviewer_profile :: "SelectedPersona \<Rightarrow> ReviewerProfile" where
  "to_reviewer_profile self =
     \<lparr>profile_profession = profession self,
      profile_age = age self,
      profile_nationality = nationality self,
      profile_salary_range = salary_range self,
      profile_priorities = str_join '', '' (priorities self),
      profile_hobbies = str_join '', '' (hobbies self),
      profile_constraints = str_join '', '' (constraints self)\<rparr>"

section \<open>product\_reviewer.py: generating a review\<close>

datatype message = SystemMessage string | HumanMessage string

text \<open>
  \<open>client.invoke(messages)\<close> followed by \<open>.content\<close>: a call to an external service. Its
  outcome is the next of the scripted replies; with none left the call raises.
\<close>

definition invoke :: "'c \<Rightarrow> message list \<Rightarrow> string py" where
  "invoke client msgs w =
     (case backend_replies w of
        [] \<Rightarrow> (Inl (BackendError []), w)
      | Inl msg # rest \<Rightarrow> (Inl (BackendError msg), w\<lparr>backend_replies := rest\<rparr>)
      | Inr text # rest \<Rightarrow> (Inr text, w\<lparr>backend_replies := rest\<rparr>))"

definition generate_system_prompt :: "ReviewerProfile \<Rightarrow> string" where
  "generate_system_prompt profile =
     ''You are an honest '' @ str_lower (profile_nationality profile) @ '' in his/her ''
     @ str_of_int (profile_age profile) @ '', a '' @ str_lower (profile_profession profile)
     @ '' '' @ [CHR 0x0A]
     @ ''        with an annual salary range of '' @ profile_salary_range profile @ ''.  ''
     @ [CHR 0x0A]
     @ ''        You prioritize '' @ profile_priorities profile
     @ '' when assessing products, considering not just practicality and budget but ''
     @ ''also how '' @ [CHR 0x0A]
     @ ''        well the product fits into your personal interests, hobbies like ''
     @ profile_hobbies profile @ '', and lifestyle.'' @ [CHR 0x0A]
     @ ''        When reviewing, consider the product'' @ [CHR 0x27]
     @ ''s strengths, weaknesses, uniqueness, and how it aligns with your daily '' @ ''routine ''
     @ [CHR 0x0A]
     @ ''        and personal constraints such as '' @ profile_constraints profile @ ''.''
     @ [CHR 0x0A]
     @ ''        Provide a comprehensive review with your purchase recommendation ''
     @ ''and include a confidence percentage.'' @ [CHR 0x0A]
     @ ''        Format your response as:'' @ [CHR 0x0A]
     @ ''        REVIEW: [Your detailed review with purchase recommendation and ''
     @ ''percentage]''"

text \<open>
  \<open>ProductReviewer._process_message\<close>: the exception of the call is logged and raised
  again. A reviewer without a model raises \<open>AttributeError\<close>.
\<close>

definition process_message :: "'c ProductReviewer \<Rightarrow> message list \<Rightarrow> string py" where
  "process_message self msgs =
     (case model self of
        None \<Rightarrow> raise AttributeError
      | Some client \<Rightarrow> invoke client msgs)"

definition parse_ai_response :: "string \<Rightarrow> string" where
  "parse_ai_response response = response"

definition generate_review :: "'c ProductReviewer \<Rightarrow> Product \<Rightarrow> ReviewerProfile \<Rightarrow> ReviewSession py" where
  "generate_review self product profile =
     (let session = ReviewSession_init;
          msgs = [SystemMessage (generate_system_prompt profile),
                  HumanMessage (to_review_format product)]
      in bind (process_message self msgs) (\<lambda>response.
         let review_content = parse_ai_response response;
             session = session\<lparr>final_review := Some review_content\<rparr>
         in add_message session ''ai'' review_content))"

section \<open>review\_summarizer.py: summarizing the reviews\<close>

text \<open>
  \<open>ReviewSummarizer\<close> holds the client it was constructed with. The product information
  is a dict of strings; \<open>info.get(key, 'N/A')\<close> reads it.
\<close>

record 'c ReviewSummarizer =
  summarizer_model :: 'c

definition dict_get :: "(string \<times> string) list \<Rightarrow> string \<Rightarrow> string \<Rightarrow> string" where
  "dict_get d key fallback = (case map_of d key of None \<Rightarrow> fallback | Some v \<Rightarrow> v)"

text \<open>
  \<open>[f"Review {i + 1}: {review}" for i, review in enumerate(reviews)]\<close>; a review that is
  \<open>None\<close> is formatted as \<open>None\<close>.
\<close>

fun numbered_reviews :: "nat \<Rightarrow> string option list \<Rightarrow> string list" where
  "numbered_reviews i [] = []"
| "numbered_reviews i (review # rest) =
     (''Review '' @ str_of_nat (i + 1) @ '': ''
        @ (case review of None \<Rightarrow> ''None'' | Some text \<Rightarrow> text))
     # numbered_reviews (i + 1) rest"

definition create_summary_prompt ::
  "string option list \<Rightarrow> (string \<times> string) list option \<Rightarrow> string" where
  \<open>create_summary_prompt reviews product_info =
     (let product_context =
            (if truthy product_info
             then ''Product Context:'' @ [CHR 0x0A]
                  @ ''Name: '' @ dict_get (items product_info) ''name'' ''N/A'' @ [CHR 0x0A]
                  @ ''Description: '' @ dict_get (items product_info) ''description'' ''N/A''
                  @ [CHR 0x0A]
                  @ ''Price: '' @ dict_get (items product_info) ''price'' ''N/A'' @ [CHR 0x0A]
                  @ ''Category: '' @ dict_get (items product_info) ''category'' ''N/A''
                  @ [CHR 0x0A]
             else []);
          reviews_text = str_join [CHR 0x0A, CHR 0x0A] (numbered_reviews 0 reviews)
      in
        [CHR 0x0A]
        @ ''        Analyze these product reviews and provide insights as a JSON object ''
        @ ''in the exact format below. Your response must be strict JSON without ''
        @ ''additional text or comments.'' @ [CHR 0x0A]
        @ ''        - Your response contains no duplicate keys.'' @ [CHR 0x0A]
        @ ''        - It adheres strictly to the provided JSON format.'' @ [CHR 0x0A]
        @ ''        product details:'' @ [CHR 0x0A]
        @ ''        '' @ product_context @ [CHR 0x0A, CHR 0x0A]
        @ ''        Personas and Reviews:'' @ [CHR 0x0A]
        @ ''        '' @ reviews_text @ [CHR 0x0A, CHR 0x0A]
        @ ''        Required JSON format:'' @ [CHR 0x0A]
        @ ''        {'' @ [CHR 0x0A]
        @ ''            "overall_sentiment": "string (e.g., Very Positive, Positive, ''
        @ ''Neutral, Negative, Very Negative)",'' @ [CHR 0x0A]
        @ ''            "purchase_intent_percentage": float (0-100),'' @ [CHR 0x0A]
        @ ''            "confidence_score": float (0-100),'' @ [CHR 0x0A]
        @ ''            "key_strengths": ["List of 3-5 main strengths"],'' @ [CHR 0x0A]
        @ ''            "key_concerns": ["List of 3-5 main concerns"],'' @ [CHR 0x0A]
        @ ''            "demographic_insights": {'' @ [CHR 0x0A]
        @ ''                "profession_based": "e.g., Engineers liked the product for ''
        @ ''its durability",'' @ [CHR 0x0A]
        @ ''                "age_based": "e.g., Popular among users aged 25-34",'' @ [CHR 0x0A]
        @ ''                "nationality_based": "e.g., Preferred by users in North ''
        @ ''America"'' @ [CHR 0x0A]
        @ ''            },'' @ [CHR 0x0A]
        @ ''            "common_themes": ["List of 4-6 recurring themes"],'' @ [CHR 0x0A]
        @ ''            "recommendation": "e.g., This product is recommended for...",''
        @ [CHR 0x0A]
        @ ''            "detailed_summary": "2-3 paragraphs with a natural summary"''
        @ [CHR 0x0A]
        @ ''        }'' @ [CHR 0x0A]
        @ ''        Ensure that your output is strictly valid JSON. Do not include any ''
        @ ''additional commentary.'' @ [CHR 0x0A]
        @ ''        '')\<close>

definition summarizer_system_message :: string where
  "summarizer_system_message =
     ''You are a professional review analyst. Your task is to provide a ''
     @ ''comprehensive and insightfulsummary of the given product reviews. Follow ''
     @ ''the structure provided and ensure your response is strictly in JSON format. ''
     @ ''Be precise, clear, and include actionable insights while adhering to the ''
     @ ''required output format.''"

text \<open>
  The summary \<open>summarize_reviews\<close> returns when the call to the model raises; \<open>msg\<close> is
  \<open>str(e)\<close>.
\<close>

definition processing_error_summary :: "string \<Rightarrow> ReviewSummary" where
  "processing_error_summary msg = \<lparr>
     overall_sentiment = PStr ''Neutral'',
     purchase_intent_percentage = PFloat 0,
     confidence_score = PFloat 0,
     key_strengths = PList [PStr ''Error processing review''],
     key_concerns = PList [PStr ''Error processing review''],
     demographic_insights = PDict [(''error'', PStr ''Processing failed'')],
     common_themes = PList [PStr ''Error processing review''],
     recommendation = PStr ''Unable to generate recommendation due to processing error'',
     detailed_summary = PStr (''Error occurred while processing reviews: '' @ msg) \<rparr>"

text \<open>
  \<open>ReviewSummarizer.summarize_reviews\<close>. Inside the \<open>try\<close> block only the call to the model
  can raise (\<open>from_json\<close> catches its own exceptions); the handler returns the summary
  above.
\<close>

definition summarize_reviews ::
  "json_decoder \<Rightarrow> 'c ReviewSummarizer \<Rightarrow> string option list \<Rightarrow> (string \<times> string) list option
     \<Rightarrow> ReviewSummary py" where
  "summarize_reviews raw_decode self reviews product_info w =
     (let msgs = [SystemMessage summarizer_system_message,
                  HumanMessage (create_summary_prompt reviews product_info)]
      in case invoke (summarizer_model self) msgs w of
           (Inr response_content, w') \<Rightarrow> (Inr (from_json raw_decode response_content), w')
         | (Inl e, w') \<Rightarrow>
             (Inr (processing_error_summary (case e of BackendError msg \<Rightarrow> msg | _ \<Rightarrow> [])), w'))"

section \<open>manger.py: the orchestration\<close>

text \<open>
  The dataclass \<open>ReviewConfiguration\<close>; its fields \<open>api_key\<close> and \<open>model_config\<close> carry the
  prefix \<open>config_\<close>, since \<open>ProductReviewer\<close> has attributes of the same names.
\<close>

record ReviewConfiguration =
  persona_criteria :: PersonaSelectionCriteria
  num_personas :: int
  ai_provider :: string
  config_api_key :: string
  config_model_config :: "config option"
  randomize_if_insufficient :: bool

text \<open>
  An entry of the list \<open>reviews\<close>: the dict with the keys \<open>'persona'\<close>, \<open>'review'\<close> and
  \<open>'timestamp'\<close> (here \<open>review_timestamp\<close>). The persona is itself a dict, of seven keys.
\<close>

record review_entry =
  persona :: pyval
  review :: "string option"
  review_timestamp :: "string option"

definition persona_dict :: "SelectedPersona \<Rightarrow> pyval" where
  "persona_dict p =
     PDict [(''name'', PStr (name p)),
            (''age'', PInt (age p)),
            (''profession'', PStr (profession p)),
            (''nationality'', PStr (nationality p)),
            (''salary_range'', PStr (salary_range p)),
            (''hobbies'', PList (map PStr (hobbies p))),
            (''priorities'', PList (map PStr (priorities p)))]"

definition new_review_entry :: "SelectedPersona \<Rightarrow> ReviewSession \<Rightarrow> review_entry" where
  "new_review_entry p review_session =
     \<lparr>persona = persona_dict p,
      review = final_review review_session,
      review_timestamp =
        (if messages review_session \<noteq> []
         then Some (timestamp (last (messages review_session)))
         else None)\<rparr>"

text \<open>
  The loop over the selected personas. The body is a \<open>try\<close> block: when it raises, the
  handler logs the exception and continues with the next persona.
\<close>

fun review_loop ::
  "'c ProductReviewer \<Rightarrow> Product \<Rightarrow> SelectedPersona list \<Rightarrow> review_entry list
     \<Rightarrow> review_entry list py" where
  "review_loop reviewer product [] reviews w = return reviews w"
| "review_loop reviewer product (p # rest) reviews w =
     (case generate_review reviewer product (to_reviewer_profile p) w of
        (Inr review_session, w') \<Rightarrow>
          review_loop reviewer product rest (reviews @ [new_review_entry p review_session]) w'
      | (Inl e, w') \<Rightarrow> review_loop reviewer product rest reviews w')"

text \<open>The dict \<open>generate_product_reviews\<close> returns, with its dict \<open>'metadata'\<close>.\<close>

record review_metadata =
  total_personas :: int
  successful_reviews :: int
  metadata_ai_provider :: string

record review_result =
  result_product :: "(string \<times> string) list"
  result_summary :: ReviewSummary
  result_metadata :: review_metadata

text \<open>A value or an exception that needs no state.\<close>

definition lift :: "py_exception + 'a \<Rightarrow> 'a py" where
  "lift r w = (r, w)"

text \<open>
  \<open>Manager.generate_product_reviews\<close>. The selection and the construction of the reviewer
  stand before the loop: their exceptions reach the outer handler, which logs them and
  raises them again. \<open>getattr(product, 'category', 'N/A')\<close> is \<open>'N/A'\<close>, a \<open>Product\<close>
  having no such attribute.
\<close>

definition generate_product_reviews ::
  "(AIProvider \<Rightarrow> config \<Rightarrow> py_exception + 'c) \<Rightarrow> json_decoder \<Rightarrow> 'c ReviewSummarizer
     \<Rightarrow> Product \<Rightarrow> ReviewConfiguration \<Rightarrow> review_result py" where
  "generate_product_reviews make_client raw_decode summarizer product cfg =
     bind (get_selected_personas (persona_criteria cfg) (num_personas cfg)
             (randomize_if_insufficient cfg)) (\<lambda>selected_personas.
     bind (lift (ProductReviewer_init make_client (ai_provider cfg) (config_api_key cfg)
                   (config_model_config cfg))) (\<lambda>reviewer.
     bind (review_loop reviewer product selected_personas []) (\<lambda>reviews.
     let product_info = [(''name'', product_name product),
                         (''description'', description product),
                         (''price'', price product),
                         (''category'', ''N/A'')];
         review_texts = map review reviews
     in bind (summarize_reviews raw_decode summarizer review_texts (Some product_info))
          (\<lambda>summary.
        return \<lparr>result_product = product_info,
                result_summary = summary,
                result_metadata =
                  \<lparr>total_personas = int (length selected_personas),
                   successful_reviews = int (length reviews),
                   metadata_ai_provider = ai_provider cfg\<rparr>\<rparr>))))"

section \<open>Specification predicates and proof vocabulary\<close>

text \<open>
  What it means for a persona to satisfy the criteria, in the words of the specification:
  the age within the bounds, both included; each categorical field a member of its
  allow-list when one is given; for each desired set given, the number of the persona's
  values that are in the set at least the minimum. A list is given when it is not \<open>None\<close>.
\<close>

definition member_of :: "string \<Rightarrow> string list option \<Rightarrow> bool" where
  "member_of x allow = (case allow of None \<Rightarrow> True | Some xs \<Rightarrow> x \<in> set xs)"

definition enough_of :: "string list \<Rightarrow> string list option \<Rightarrow> int \<Rightarrow> bool" where
  "enough_of xs desired m =
     (case desired of None \<Rightarrow> True | Some d \<Rightarrow> m \<le> int (card (set xs \<inter> set d)))"

definition satisfies_criteria :: "PersonaSelectionCriteria \<Rightarrow> 'a SelectedPersona_scheme \<Rightarrow> bool" where
  "satisfies_criteria c p =
     ((case age_range c of None \<Rightarrow> True | Some (lo, hi) \<Rightarrow> lo \<le> age p \<and> age p \<le> hi)
      \<and> member_of (profession p) (professions c)
      \<and> member_of (nationality p) (nationalities c)
      \<and> member_of (salary_range p) (salary_ranges c)
      \<and> enough_of (hobbies p) (desired_hobbies c) (min_matching_hobbies c)
      \<and> enough_of (priorities p) (desired_priorities c) (min_matching_priorities c))"

text \<open>
  The same with an empty list counting as no list: that is how the code reads the criteria,
  since it tests the truth value of each list. \<open>no_empty_list\<close>: no list of the criteria
  is given empty, so that the two readings agree.
\<close>

definition satisfies_nonempty_criteria :: "PersonaSelectionCriteria \<Rightarrow> 'a SelectedPersona_scheme \<Rightarrow> bool" where
  "satisfies_nonempty_criteria c p =
     ((case age_range c of None \<Rightarrow> True | Some (lo, hi) \<Rightarrow> lo \<le> age p \<and> age p \<le> hi)
      \<and> (truthy (professions c) \<longrightarrow> profession p \<in> set (items (professions c)))
      \<and> (truthy (nationalities c) \<longrightarrow> nationality p \<in> set (items (nationalities c)))
      \<and> (truthy (salary_ranges c) \<longrightarrow> salary_range p \<in> set (items (salary_ranges c)))
      \<and> (truthy (desired_hobbies c)
           \<longrightarrow> min_matching_hobbies c \<le> match_count (hobbies p) (desired_hobbies c))
      \<and> (truthy (desired_priorities c)
           \<longrightarrow> min_matching_priorities c \<le> match_count (priorities p) (desired_priorities c)))"

definition no_empty_list :: "PersonaSelectionCriteria \<Rightarrow> bool" where
  "no_empty_list c =
     (professions c \<noteq> Some [] \<and> nationalities c \<noteq> Some [] \<and> salary_ranges c \<noteq> Some []
      \<and> desired_hobbies c \<noteq> Some [] \<and> desired_priorities c \<noteq> Some [])"

text \<open>
  The vocabulary of the proofs. \<open>keeps L w w'\<close>: from \<open>w\<close> to \<open>w'\<close> no DataFrame at an
  address below \<open>L\<close> has changed, and the two attributes of the selector are the same.
  \<open>holds L rows fd w\<close>: \<open>fd\<close> is an address in use, not below \<open>L\<close>, whose rows are \<open>rows\<close>.
  \<open>lands L rows w m\<close>: run in \<open>w\<close>, the computation \<open>m\<close> returns such an address, keeps the
  DataFrames below \<open>L\<close> and draws no random number.
\<close>

definition keeps :: "nat \<Rightarrow> world \<Rightarrow> world \<Rightarrow> bool" where
  "keeps L w w' =
     ((\<forall>a<L. frames w' a = frames w a)
      \<and> next_addr w \<le> next_addr w'
      \<and> self_df w' = self_df w
      \<and> self_unique_values w' = self_unique_values w)"

definition holds :: "nat \<Rightarrow> frame \<Rightarrow> addr \<Rightarrow> world \<Rightarrow> bool" where
  "holds L rows fd w = (L \<le> fd \<and> fd < next_addr w \<and> frames w fd = rows)"

definition lands :: "nat \<Rightarrow> frame \<Rightarrow> world \<Rightarrow> addr py \<Rightarrow> bool" where
  "lands L rows w m =
     (\<exists>fd' w'. m w = (Inr fd', w') \<and> holds L rows fd' w' \<and> keeps L w w'
        \<and> random_draws w' = random_draws w)"

text \<open>
  What the two filtering parts compute on the rows: the rows that pass the scalar
  constraints, then those that pass the match counts, with the score columns set.
\<close>

definition scalar_ok :: "PersonaSelectionCriteria \<Rightarrow> row \<Rightarrow> bool" where
  "scalar_ok c r =
     ((case age_range c of None \<Rightarrow> True | Some (lo, hi) \<Rightarrow> lo \<le> age r \<and> age r \<le> hi)
      \<and> (truthy (professions c) \<longrightarrow> profession r \<in> set (items (professions c)))
      \<and> (truthy (nationalities c) \<longrightarrow> nationality r \<in> set (items (nationalities c)))
      \<and> (truthy (salary_ranges c) \<longrightarrow> salary_range r \<in> set (items (salary_ranges c))))"

definition with_scores :: "PersonaSelectionCriteria \<Rightarrow> row \<Rightarrow> row" where
  "with_scores c r =
     (let r1 = (if truthy (desired_hobbies c)
                then r\<lparr>hobby_match_count := Some (match_count (hobbies r) (desired_hobbies c))\<rparr>
                else r)
      in if truthy (desired_priorities c)
         then r1\<lparr>priority_match_count := Some (match_count (priorities r1) (desired_priorities c))\<rparr>
         else r1)"

definition complex_ok :: "PersonaSelectionCriteria \<Rightarrow> row \<Rightarrow> bool" where
  "complex_ok c r =
     ((truthy (desired_hobbies c)
         \<longrightarrow> min_matching_hobbies c \<le> match_count (hobbies r) (desired_hobbies c))
      \<and> (truthy (desired_priorities c)
         \<longrightarrow> min_matching_priorities c \<le> match_count (priorities r) (desired_priorities c)))"

text \<open>
  \<open>synthesized uv c p\<close>: \<open>p\<close> is a persona \<open>_generate_random_persona\<close> returns for the
  criteria \<open>c\<close> and the catalog \<open>uv\<close>. \<open>only_draws m\<close>: the computation \<open>m\<close> changes nothing
  of the state but the random draws.
\<close>

definition synthesized :: "unique_values \<Rightarrow> PersonaSelectionCriteria \<Rightarrow> SelectedPersona \<Rightarrow> bool" where
  "synthesized uv c p =
     (\<exists>w w'. self_unique_values w = uv \<and> generate_random_persona c w = (Inr p, w'))"

definition only_draws :: "'a py \<Rightarrow> bool" where
  "only_draws m = (\<forall>w. \<exists>ds. snd (m w) = w\<lparr>random_draws := ds\<rparr>)"

text \<open>
  \<open>seedable desired m\<close>: a desired list, when given, has no duplicate and at least \<open>m\<close>
  entries. \<open>can_synthesize c uv\<close>: every random call of \<open>_generate_random_persona\<close> has
  what it needs, whatever is drawn: the age range is not empty, each categorical field has
  a non-empty allow-list or a non-empty catalog, the minimum of a desired list in use is not
  negative, and the catalog holds three hobbies and two priorities outside the desired
  ones, and two constraints. \<open>yields m P\<close>: in every state the computation \<open>m\<close> returns,
  and what it returns satisfies \<open>P\<close>.
\<close>

definition seedable :: "string list option \<Rightarrow> int \<Rightarrow> bool" where
  "seedable desired m =
     (case desired of None \<Rightarrow> True | Some d \<Rightarrow> distinct d \<and> m \<le> int (length d))"



text \<open>
  The records of the loaded store, and the rows \<open>_filter_personas\<close> has after its two
  filtering parts.
\<close>

definition store_personas :: "world \<Rightarrow> SelectedPersona list" where
  "store_personas w = map from_series (frames w (self_df w))"

definition matching :: "PersonaSelectionCriteria \<Rightarrow> world \<Rightarrow> frame" where
  "matching c w =
     map (with_scores c) (filter (complex_ok c) (filter (scalar_ok c) (frames w (self_df w))))"

text \<open>
  The personas whose call to the model returns, and the texts returned, when the calls are
  made in order and answered by the replies in order: a persona is skipped when its reply
  is an exception or when no reply is left.
\<close>

fun succeeded :: "'a list \<Rightarrow> (string + string) list \<Rightarrow> 'a list" where
  "succeeded [] replies = []"
| "succeeded (p # ps) [] = []"
| "succeeded (p # ps) (Inl msg # replies) = succeeded ps replies"
| "succeeded (p # ps) (Inr text # replies) = p # succeeded ps replies"

fun reply_texts :: "'a list \<Rightarrow> (string + string) list \<Rightarrow> string list" where
  "reply_texts [] replies = []"
| "reply_texts (p # ps) [] = []"
| "reply_texts (p # ps) (Inl msg # replies) = reply_texts ps replies"
| "reply_texts (p # ps) (Inr text # replies) = text # reply_texts ps replies"

text \<open>
  A cell that holds a list; and the body of the loop of \<open>prepare_dataframe\<close> for one
  column.
\<close>

definition is_items :: "cell \<Rightarrow> bool" where
  "is_items c = (case c of Items xs \<Rightarrow> True | _ \<Rightarrow> False)"

definition normalize_column :: "table \<Rightarrow> string \<Rightarrow> table" where
  "normalize_column df col =
     (if is_object_dtype (column df col)
      then set_column df col (map convert_string_to_list (column df col))
      else df)"

section \<open>Example inputs\<close>

text \<open>
  A store of two personas with its catalog, and criteria: the age range 25 to 35 and the
  profession \<open>Software engineer\<close>, which one persona of the store satisfies.
\<close>

definition example_catalog :: unique_values where
  "example_catalog = \<lparr>
     uv_professions = [''Software engineer'', ''Teacher''],
     uv_nationalities = [''French''],
     uv_salary_ranges = [''50k-70k''],
     uv_hobbies = [''chess'', ''golf'', ''reading'', ''tennis''],
     uv_priorities = [''price'', ''quality'', ''design''],
     uv_constraints = [''budget'', ''space'']\<rparr>"

definition example_ann :: SelectedPersona where
  "example_ann = \<lparr>name = ''Ann'', age = 30, profession = ''Software engineer'',
     nationality = ''French'', salary_range = ''50k-70k'', hobbies = [''chess'', ''golf''],
     priorities = [''price''], constraints = [''budget'']\<rparr>"

definition example_bob :: SelectedPersona where
  "example_bob = \<lparr>name = ''Bob'', age = 52, profession = ''Teacher'',
     nationality = ''French'', salary_range = ''50k-70k'', hobbies = [''reading'', ''tennis''],
     priorities = [''quality'', ''design''], constraints = [''space'']\<rparr>"

definition example_world :: world where
  "example_world = \<lparr>
     frames = (\<lambda>a. [])(0 := [as_row example_ann, as_row example_bob]),
     next_addr = 1, self_df = 0, self_unique_values = example_catalog,
     random_draws = [234, 7, 1, 0, 0, 0, 2, 1, 1, 0, 0, 0, 1, 1, 1, 1],
     backend_replies = [], clock = []\<rparr>"

definition example_criteria :: PersonaSelectionCriteria where
  "example_criteria = \<lparr>age_range = Some (25, 35), professions = Some [''Software engineer''],
     nationalities = None, salary_ranges = None, desired_hobbies = None,
     desired_priorities = None, wanted_constraints = None,
     min_matching_hobbies = 1, min_matching_priorities = 1\<rparr>"

definition example_hobby_criteria :: PersonaSelectionCriteria where
  "example_hobby_criteria = example_criteria\<lparr>desired_hobbies := Some [''chess'', ''golf'']\<rparr>"

definition example_strict_criteria :: PersonaSelectionCriteria where
  "example_strict_criteria =
     example_criteria\<lparr>desired_hobbies := Some [''chess''], min_matching_hobbies := 2\<rparr>"

text \<open>
  Criteria without any constraint; with an allow-list or a desired list that is given but
  empty; with an empty age range; with a negative minimum; with a desired list that repeats
  a hobby. A store without records; a store one of whose records has a name of the generated
  form; a store of one persona, whose catalog has two hobbies, with draws that ask for three.
\<close>

definition example_open_criteria :: PersonaSelectionCriteria where
  "example_open_criteria = \<lparr>age_range = None, professions = None, nationalities = None,
     salary_ranges = None, desired_hobbies = None, desired_priorities = None,
     wanted_constraints = None, min_matching_hobbies = 1, min_matching_priorities = 1\<rparr>"

definition example_empty_allow_criteria :: PersonaSelectionCriteria where
  "example_empty_allow_criteria = example_open_criteria\<lparr>professions := Some []\<rparr>"

definition example_empty_desired_criteria :: PersonaSelectionCriteria where
  "example_empty_desired_criteria = example_open_criteria\<lparr>desired_hobbies := Some []\<rparr>"



definition example_duplicate_criteria :: PersonaSelectionCriteria where
  "example_duplicate_criteria =
     example_criteria\<lparr>desired_hobbies := Some [''chess'', ''chess'', ''golf''],
                      min_matching_hobbies := 2\<rparr>"

definition example_duplicate_world :: world where
  "example_duplicate_world = example_world\<lparr>random_draws := [234, 7, 0, 0, 0, 0, 0, 0, 1]\<rparr>"


definition example_named_world :: world where
  "example_named_world = example_world\<lparr>
     frames := (\<lambda>a. [])(0 := [as_row (example_ann\<lparr>name := ''RandomPersona_1234''\<rparr>),
                              as_row example_bob])\<rparr>"



text \<open>
  A panel of five personas, a product and a configuration that selects the five. The
  third call to the model raises; the sixth reply is the text of the summary.
\<close>

definition example_cara :: SelectedPersona where
  "example_cara = \<lparr>name = ''Cara'', age = 41, profession = ''Nurse'',
     nationality = ''Irish'', salary_range = ''30k-50k'', hobbies = [''golf''],
     priorities = [''quality''], constraints = [''budget'']\<rparr>"

definition example_dan :: SelectedPersona where
  "example_dan = \<lparr>name = ''Dan'', age = 27, profession = ''Designer'',
     nationality = ''Dutch'', salary_range = ''50k-70k'', hobbies = [''chess''],
     priorities = [''design''], constraints = [''space'']\<rparr>"

definition example_eve :: SelectedPersona where
  "example_eve = \<lparr>name = ''Eve'', age = 63, profession = ''Teacher'',
     nationality = ''French'', salary_range = ''30k-50k'', hobbies = [''reading''],
     priorities = [''price''], constraints = [''budget'']\<rparr>"

definition example_panel :: "SelectedPersona list" where
  "example_panel = [example_ann, example_bob, example_cara, example_dan, example_eve]"

definition example_panel_world :: world where
  "example_panel_world = \<lparr>
     frames = (\<lambda>a. [])(0 := map as_row example_panel),
     next_addr = 1, self_df = 0, self_unique_values = example_catalog,
     random_draws = [],
     backend_replies = [Inr ''REVIEW: sharp picture'', Inr ''REVIEW: fair price'',
                        Inl ''429 quota exceeded'', Inr ''REVIEW: too large'',
                        Inr ''REVIEW: easy on the eyes'', Inr example_summary_json],
     clock = [''2024-05-01T10:00:00'', ''2024-05-01T10:00:05'', ''2024-05-01T10:00:09'',
              ''2024-05-01T10:00:14'']\<rparr>"

definition example_product :: Product where
  "example_product = \<lparr>product_name = ''HP 24mh FHD Computer Monitor'', price = ''$179'',
     description = ''A 23.8-inch FHD monitor'',
     strengths = Some [''Clear Full HD resolution''], weaknesses = Some [],
     unique_features = None\<rparr>"

definition example_configuration :: ReviewConfiguration where
  "example_configuration = \<lparr>
     persona_criteria = \<lparr>age_range = None, professions = None, nationalities = None,
        salary_ranges = None, desired_hobbies = None, desired_priorities = None,
        wanted_constraints = None, min_matching_hobbies = 1, min_matching_priorities = 1\<rparr>,
     num_personas = 5, ai_provider = ''gemini'', config_api_key = ''secret'',
     config_model_config = None, randomize_if_insufficient = True\<rparr>"

text \<open>
  A sheet of two records; the second has no name, no profession and no hobbies. And the
  same sheet without its column \<open>age\<close>.
\<close>

definition example_table :: table where
  \<open>example_table =
     [(''name'', [Text ''Ann'', Null]),
      (''age'', [Number 30, Number 52]),
      (''profession'', [Text ''Software engineer'', Null]),
      (''nationality'', [Text ''French'', Text ''French'']),
      (''salary_range'', [Text ''50k-70k'', Text ''50k-70k'']),
      (''hobbies'', [Text (''['' @ [CHR 0x27] @ ''chess'' @ [CHR 0x27] @ '', ''
                            @ [CHR 0x27] @ ''golf'' @ [CHR 0x27] @ '']''), Null]),
      (''priorities'', [Text ''price, quality'', Text '''']),
      (''constraints'', [Text ''budget'', Text ''space''])]\<close>

definition example_table_without_age :: table where
  "example_table_without_age = filter (\<lambda>(k, v). k \<noteq> ''age'') example_table"

section \<open>Properties of the summary parsing path\<close>

lemma str_find_absent: "c \<notin> set s \<Longrightarrow> str_find c s = - 1"
  by (induction s) (auto simp: Let_def)

lemma str_find_nonneg: "c \<in> set s \<Longrightarrow> 0 \<le> str_find c s"
  by (induction s) (auto simp: Let_def)

lemma str_find_head: "str_find c (c # s) = 0"
  by simp

lemma slice_from_zero: "slice_from s 0 = s"
  by (simp add: slice_from_def)

lemma slice_from_last: "slice_from s (- 1) = drop (length s - 1) s"
  by (cases s) (auto simp: slice_from_def nat_diff_distrib')

lemma ReviewSummary_init_mismatch:
  "set (map fst kwargs) \<noteq> set ReviewSummary_fields \<Longrightarrow> ReviewSummary_init kwargs = Inl TypeError"
  by (auto simp: ReviewSummary_init_def)



text \<open>
  C5. Whatever the decoder does on the text from the first opening brace on: if it raises,
  or the decoded value is not a dict, or the dict's keys are not exactly the nine field
  names (one is missing or one is unexpected), the \<open>try\<close> block raises, the exception is
  caught, and \<open>from_json\<close> returns the fallback summary (zero scores, \<open>Neutral\<close>, the
  \<open>Unable to ...\<close> sentinels). A text with no opening brace is decoded from its last
  character on; for the prose \<open>I cannot help with that.\<close> this is the text \<open>.\<close>, on which
  a JSON decoder raises, so the prose yields the fallback. The values stored under the
  nine keys are not type-checked.
\<close>

theorem from_json_fallback:
  fixes raw_decode :: json_decoder
  shows "((\<exists>e. raw_decode (slice_from s (str_find (CHR ''{'') s)) = Inl e)
          \<or> (\<exists>v n. raw_decode (slice_from s (str_find (CHR ''{'') s)) = Inr (v, n)
                  \<and> (\<forall>kwargs. v \<noteq> PDict kwargs))
          \<or> (\<exists>kwargs n. raw_decode (slice_from s (str_find (CHR ''{'') s)) = Inr (PDict kwargs, n)
                  \<and> set (map fst kwargs) \<noteq> set ReviewSummary_fields)
          \<longrightarrow> (\<exists>e. from_json_try raw_decode s = Inl e)
              \<and> from_json raw_decode s = fallback_summary
              \<and> purchase_intent_percentage (from_json raw_decode s) = PFloat 0
              \<and> confidence_score (from_json raw_decode s) = PFloat 0
              \<and> overall_sentiment (from_json raw_decode s) = PStr ''Neutral'')
         \<and> ((\<exists>e. raw_decode ''.'' = Inl e)
              \<longrightarrow> from_json raw_decode ''I cannot help with that.'' = fallback_summary)"
proof (intro conjI impI)
  let ?js = "slice_from s (str_find (CHR ''{'') s)"
  assume bad: "(\<exists>e. raw_decode ?js = Inl e)
          \<or> (\<exists>v n. raw_decode ?js = Inr (v, n) \<and> (\<forall>kwargs. v \<noteq> PDict kwargs))
          \<or> (\<exists>kwargs n. raw_decode ?js = Inr (PDict kwargs, n)
                  \<and> set (map fst kwargs) \<noteq> set ReviewSummary_fields)"
  then show raised: "\<exists>e. from_json_try raw_decode s = Inl e"
  proof (elim disjE exE conjE)
    fix e assume "raw_decode ?js = Inl e"
    then show ?thesis by (simp add: from_json_try_def)
  next
    fix v n assume "raw_decode ?js = Inr (v, n)" "\<forall>kwargs. v \<noteq> PDict kwargs"
    then show ?thesis by (cases v) (simp_all add: from_json_try_def)
  next
    fix kwargs n
    assume "raw_decode ?js = Inr (PDict kwargs, n)"
      "set (map fst kwargs) \<noteq> set ReviewSummary_fields"
    then show ?thesis
      by (simp add: from_json_try_def ReviewSummary_init_mismatch)
  qed
  then show fb: "from_json raw_decode s = fallback_summary"
    by (auto simp: from_json_def)
  show "purchase_intent_percentage (from_json raw_decode s) = PFloat 0"
    "confidence_score (from_json raw_decode s) = PFloat 0"
    "overall_sentiment (from_json raw_decode s) = PStr ''Neutral''"
    by (simp_all add: fb fallback_summary_def)
next
  assume "\<exists>e. raw_decode ''.'' = Inl e"
  then obtain e where e: "raw_decode ''.'' = Inl e" by blast
  have "str_find (CHR ''{'') ''I cannot help with that.'' = - 1"
    by (rule str_find_absent) simp
  then have "from_json_try raw_decode ''I cannot help with that.'' = Inl e"
    using e by (simp add: from_json_try_def slice_from_def)
  then show "from_json raw_decode ''I cannot help with that.'' = fallback_summary"
    by (simp add: from_json_def)
qed

theorem from_json_fallback_witness:
  \<open>from_json
      (\<lambda>t. if t = ''{"overall_sentiment": "Positive"}''
           then Inr (PDict [(''overall_sentiment'', PStr ''Positive'')], 33)
           else Inl JSONDecodeError)
      ''Here you go: {"overall_sentiment": "Positive"}'' = fallback_summary
   \<and> from_json
      (\<lambda>t. if t = ''{"overall_sentiment": "Positive"}''
           then Inr (PDict [(''overall_sentiment'', PStr ''Positive'')], 33)
           else Inl JSONDecodeError)
      ''I cannot help with that.'' = fallback_summary\<close>
  using from_json_fallback
    [of \<open>\<lambda>t. if t = ''{"overall_sentiment": "Positive"}''
           then Inr (PDict [(''overall_sentiment'', PStr ''Positive'')], 33)
           else Inl JSONDecodeError\<close>
        \<open>''Here you go: {"overall_sentiment": "Positive"}''\<close>]
  by (simp add: slice_from_def ReviewSummary_fields_def)


text \<open>
  C10. When the text from the first opening brace on decodes to an object that has all nine
  fields and at least one more key, the constructor call raises \<open>TypeError\<close> for the
  unexpected keyword and \<open>from_json\<close> returns the fallback summary: the extra key is not
  ignored.
\<close>

theorem from_json_unexpected_key:
  fixes raw_decode :: json_decoder
  assumes "raw_decode (slice_from s (str_find (CHR ''{'') s)) = Inr (PDict kwargs, n)"
    and "set ReviewSummary_fields \<subseteq> set (map fst kwargs)"
    and "extra \<in> set (map fst kwargs)"
    and "extra \<notin> set ReviewSummary_fields"
  shows "from_json_try raw_decode s = Inl TypeError
         \<and> from_json raw_decode s = fallback_summary"
proof -
  have "\<not> set (map fst kwargs) \<subseteq> set ReviewSummary_fields"
    using assms(3,4) by blast
  then have "ReviewSummary_init kwargs = Inl TypeError"
    by (simp add: ReviewSummary_init_def)
  then have "from_json_try raw_decode s = Inl TypeError"
    using assms(1) by (simp add: from_json_try_def)
  then show ?thesis by (simp add: from_json_def)
qed

theorem from_json_unexpected_key_witness:
  "from_json_try
     (example_decoder example_summary_json
        (PDict (ReviewSummary_dict example_summary @ [(''note'', PStr ''draft'')])))
     (''Here is the summary: '' @ example_summary_json) = Inl TypeError
   \<and> from_json
     (example_decoder example_summary_json
        (PDict (ReviewSummary_dict example_summary @ [(''note'', PStr ''draft'')])))
     (''Here is the summary: '' @ example_summary_json) = fallback_summary
   \<and> fallback_summary \<noteq> example_summary"
proof -
  let ?kw = "ReviewSummary_dict example_summary @ [(''note'', PStr ''draft'')]"
  let ?s = "''Here is the summary: '' @ example_summary_json"
  have js: "slice_from ?s (str_find (CHR ''{'') ?s) = example_summary_json"
    by (simp add: example_summary_json_def slice_from_def)
  have h1: "example_decoder example_summary_json (PDict ?kw)
              (slice_from ?s (str_find (CHR ''{'') ?s))
            = Inr (PDict ?kw, length example_summary_json)"
    unfolding js by (simp add: example_decoder_def)
  have h2: "set ReviewSummary_fields \<subseteq> set (map fst ?kw)"
    by (simp add: ReviewSummary_fields_def ReviewSummary_dict_def)
  have h3: "''note'' \<in> set (map fst ?kw)" by simp
  have h4: "''note'' \<notin> set ReviewSummary_fields"
    by (simp add: ReviewSummary_fields_def)
  have "fallback_summary \<noteq> example_summary"
    by (simp add: fallback_summary_def example_summary_def)
  with from_json_unexpected_key
    [where raw_decode = "example_decoder example_summary_json (PDict ?kw)" and s = ?s,
     OF h1 h2 h3 h4]
  show ?thesis by simp
qed



section \<open>Properties of provider construction\<close>

text \<open>
  C8. A reviewer that was constructed holds a client built from the merged configuration:
  under every key the caller's mapping has, the caller's value; under every other key, the
  default of the backend (and nothing where neither has the key).
\<close>

theorem provider_config_overlay:
  assumes "ProductReviewer_init make_client provider_name key cfg = Inr r"
  shows "\<exists>client overlay.
           overlay = (case cfg of None \<Rightarrow> Map.empty | Some m \<Rightarrow> m)
           \<and> model_config r = overlay
           \<and> make_client (provider r) (merged_config r) = Inr client
           \<and> model r = Some client
           \<and> (\<forall>k v. overlay k = Some v \<longrightarrow> merged_config r k = Some v)
           \<and> (\<forall>k. overlay k = None \<longrightarrow> merged_config r k = default_config (provider r) key k)"
proof -
  from assms obtain p where p: "AIProvider_of (str_lower provider_name) = Inr p"
    by (auto simp: ProductReviewer_init_def split: sum.splits)
  define r0 :: "'a ProductReviewer" where
    "r0 = \<lparr>provider = p, api_key = key,
           model_config = (case cfg of None \<Rightarrow> Map.empty | Some m \<Rightarrow> m), model = None\<rparr>"
  from assms p have init: "initialize_model make_client r0 = Inr r"
    by (simp add: ProductReviewer_init_def r0_def)
  then obtain client where c: "make_client (provider r0) (merged_config r0) = Inr client"
    and r: "r = r0\<lparr>model := Some client\<rparr>"
    by (auto simp: initialize_model_def split: sum.splits)
  have same: "merged_config r = merged_config r0" "provider r = provider r0"
    by (simp_all add: r merged_config_def)
  show ?thesis
    using c by (auto simp: same r r0_def merged_config_def map_add_def)
qed

theorem provider_config_overlay_witness:
  "\<exists>r. ProductReviewer_init (\<lambda>p kwargs. Inr kwargs) ''Gemini'' ''secret''
           (Some [''temperature'' \<mapsto> PFloat 0.2, ''top_p'' \<mapsto> PFloat 0.9]) = Inr r
        \<and> merged_config r ''temperature'' = Some (PFloat 0.2)
        \<and> merged_config r ''top_p'' = Some (PFloat 0.9)
        \<and> merged_config r ''model'' = Some (PStr ''gemini-1.5-pro'')
        \<and> merged_config r ''google_api_key'' = Some (PStr ''secret'')
        \<and> merged_config r ''openai_api_key'' = None
        \<and> model r = Some (merged_config r)"
proof -
  let ?mk = "\<lambda>(p :: AIProvider) (kwargs :: config). (Inr kwargs :: py_exception + config)"
  let ?cfg = "Some [''temperature'' \<mapsto> PFloat 0.2, ''top_p'' \<mapsto> PFloat 0.9]"
  have low: "str_lower ''Gemini'' = ''gemini''"
    by code_simp
  obtain r where r: "ProductReviewer_init ?mk ''Gemini'' ''secret'' ?cfg = Inr r"
    by (simp add: ProductReviewer_init_def low AIProvider_of_def initialize_model_def)
  have p: "provider r = GEMINI"
    using r by (auto simp: ProductReviewer_init_def low AIProvider_of_def initialize_model_def)
  from provider_config_overlay [OF r] p show ?thesis
    using r by (intro exI [of _ r]) (auto simp: default_config_def)
qed

section \<open>Properties of loading the store\<close>

lemma map_fst_set_column: "map fst (set_column df col cells) = map fst df"
  by (induction df) (auto simp: set_column_def)

lemma map_of_set_column:
  "map_of (set_column df col cells) k =
     (if k = col then map_option (\<lambda>v. cells) (map_of df k) else map_of df k)"
proof (induction df)
  case Nil
  show ?case by (simp add: set_column_def)
next
  case (Cons kv df)
  obtain k' v' where kv: "kv = (k', v')" by (cases kv)
  have unfold: "set_column (kv # df) col cells
                  = (if k' = col then (k', cells) else (k', v')) # set_column df col cells"
    by (simp add: set_column_def kv)
  show ?case unfolding unfold using Cons.IH by (cases "k = col") (simp_all add: kv)
qed

lemma column_set_column:
  "column (set_column df col cells) col' =
     (if col' = col \<and> col \<in> set (map fst df) then cells else column df col')"
proof (cases "map_of df col'")
  case None
  then have "col' \<notin> set (map fst df)" by (simp add: map_of_eq_None_iff)
  with None show ?thesis by (auto simp: column_def map_of_set_column)
next
  case (Some v)
  then have "col' \<in> set (map fst df)" by (metis map_of_eq_None_iff option.distinct(1) set_map)
  with Some show ?thesis by (auto simp: column_def map_of_set_column)
qed

lemma map_fst_normalize_column: "map fst (normalize_column df col) = map fst df"
  by (simp add: normalize_column_def map_fst_set_column)

lemma column_normalize_column:
  "column (normalize_column df col) col' =
     (if col' = col \<and> col \<in> set (map fst df) \<and> is_object_dtype (column df col)
      then map convert_string_to_list (column df col)
      else column df col')"
  by (simp add: normalize_column_def column_set_column)

lemma prepare_dataframe_Inr:
  assumes "prepare_dataframe df = Inr df'"
  shows "set required_columns \<subseteq> set (map fst df)"
    and "df' = normalize_column (normalize_column (normalize_column df ''hobbies'') ''priorities'')
                 ''constraints''"
proof -
  from assms have none: "filter (\<lambda>col. col \<notin> set (map fst df)) required_columns = []"
    by (auto simp: prepare_dataframe_def Let_def split: if_splits)
  then show "set required_columns \<subseteq> set (map fst df)"
    by (auto simp: filter_empty_conv)
  from assms none show "df' = normalize_column (normalize_column (normalize_column df ''hobbies'')
                                  ''priorities'') ''constraints''"
    by (simp add: prepare_dataframe_def Let_def list_columns_def normalize_column_def)
qed

lemma prepare_dataframe_missing:
  assumes "col \<in> set required_columns" and "col \<notin> set (map fst df)"
  shows "prepare_dataframe df = Inl ValueError"
proof -
  from assms have "col \<in> set (filter (\<lambda>col. col \<notin> set (map fst df)) required_columns)"
    by simp
  then have "filter (\<lambda>col. col \<notin> set (map fst df)) required_columns \<noteq> []"
    by (metis empty_iff empty_set)
  then show ?thesis by (simp add: prepare_dataframe_def Let_def)
qed

lemma is_items_convert: "is_items (convert_string_to_list v)"
  by (cases v) (simp_all add: convert_string_to_list_def is_items_def Let_def)

lemma flatten_not_object:
  assumes "\<not> is_object_dtype cells"
  shows "flatten cells = Inl TypeError"
proof (cases cells)
  case Nil
  with assms show ?thesis by (simp add: is_object_dtype_def)
next
  case (Cons c cs)
  with assms have "iterate c = Inl TypeError"
    by (cases c) (simp_all add: is_object_dtype_def iterate_def)
  with Cons show ?thesis by simp
qed

lemma distinct_items_not_object:
  "\<not> is_object_dtype cells \<Longrightarrow> distinct_items cells = Inl TypeError"
  by (simp add: distinct_items_def flatten_not_object)

lemma cache_unique_values_Inr:
  assumes "cache_unique_values df = Inr uv" and "col \<in> set list_columns"
  shows "is_object_dtype (column df col)"
proof (rule ccontr)
  assume "\<not> is_object_dtype (column df col)"
  then have "distinct_items (column df col) = Inl TypeError"
    by (rule distinct_items_not_object)
  with assms show False
    by (auto simp: cache_unique_values_def list_columns_def split: sum.splits)
qed

lemma cache_unique_values_not_object:
  assumes "col \<in> set list_columns" and "\<not> is_object_dtype (column df col)"
  shows "cache_unique_values df = Inl TypeError"
proof -
  have te: "distinct_items cells = Inl e \<Longrightarrow> e = TypeError" for cells e
  proof -
    assume a: "distinct_items cells = Inl e"
    have "flatten cs = Inl e' \<Longrightarrow> e' = TypeError" for cs e'
      by (induction cs arbitrary: e')
         (auto simp: iterate_def split: sum.splits cell.splits)
    with a show "e = TypeError" by (auto simp: distinct_items_def split: sum.splits)
  qed
  from assms have "distinct_items (column df col) = Inl TypeError"
    by (simp add: distinct_items_not_object)
  with assms(1) te show ?thesis
    by (auto simp: cache_unique_values_def list_columns_def split: sum.splits)
qed

text \<open>
  C7, as amended. The load fails with \<open>ValueError\<close> when a required column is missing.
  After a successful load the required columns are present and every cell of the three
  multi-valued columns is a list: an empty cell of such a column has become the empty list.
  The other columns are as they were read, their empty cells included. With all columns
  present, a multi-valued column that holds numbers and empty cells only makes the load
  fail with \<open>TypeError\<close>.
\<close>

theorem PersonaSelector_init_schema:
  "((\<exists>col\<in>set required_columns. col \<notin> set (map fst df))
      \<longrightarrow> PersonaSelector_init (Inr df) = Inl ValueError)
   \<and> (\<forall>sel. PersonaSelector_init (Inr df) = Inr sel \<longrightarrow>
         set required_columns \<subseteq> set (map fst (loaded_df sel))
         \<and> (\<forall>col\<in>set list_columns. \<forall>c\<in>set (column (loaded_df sel) col). is_items c)
         \<and> (\<forall>col. col \<notin> set list_columns \<longrightarrow> column (loaded_df sel) col = column df col))
   \<and> (set required_columns \<subseteq> set (map fst df)
        \<and> (\<exists>col\<in>set list_columns. \<not> is_object_dtype (column df col))
      \<longrightarrow> PersonaSelector_init (Inr df) = Inl TypeError)"
proof (intro conjI)
  show "(\<exists>col\<in>set required_columns. col \<notin> set (map fst df))
      \<longrightarrow> PersonaSelector_init (Inr df) = Inl ValueError"
    by (auto simp: PersonaSelector_init_def prepare_dataframe_missing)
next
  let ?n1 = "normalize_column df ''hobbies''"
  let ?n2 = "normalize_column ?n1 ''priorities''"
  let ?n3 = "normalize_column ?n2 ''constraints''"
  have keys: "map fst ?n3 = map fst df"
    by (simp add: map_fst_normalize_column)
  have other: "column ?n3 col = column df col" if "col \<notin> set list_columns" for col
    using that by (simp add: column_normalize_column list_columns_def)
  have list_col: "column ?n3 col
                   = (if is_object_dtype (column df col)
                      then map convert_string_to_list (column df col) else column df col)"
    if "col \<in> set list_columns" "set required_columns \<subseteq> set (map fst df)" for col
    using that
    by (auto simp: column_normalize_column list_columns_def map_fst_normalize_column
        required_columns_def)
  show "\<forall>sel. PersonaSelector_init (Inr df) = Inr sel \<longrightarrow>
         set required_columns \<subseteq> set (map fst (loaded_df sel))
         \<and> (\<forall>col\<in>set list_columns. \<forall>c\<in>set (column (loaded_df sel) col). is_items c)
         \<and> (\<forall>col. col \<notin> set list_columns \<longrightarrow> column (loaded_df sel) col = column df col)"
  proof (intro allI impI)
    fix sel
    assume init: "PersonaSelector_init (Inr df) = Inr sel"
    then obtain df' uv where p: "prepare_dataframe df = Inr df'"
      and c: "cache_unique_values df' = Inr uv" and sel: "loaded_df sel = df'"
      by (auto simp: PersonaSelector_init_def split: sum.splits)
    note pd = prepare_dataframe_Inr [OF p]
    have items: "is_items cell" if col: "col \<in> set list_columns"
      and cell: "cell \<in> set (column df' col)" for col cell
    proof -
      from cache_unique_values_Inr [OF c col] have obj: "is_object_dtype (column df' col)" .
      show ?thesis
      proof (cases "is_object_dtype (column df col)")
        case True
        with list_col [OF col pd(1)] cell pd(2) show ?thesis
          by (auto simp: is_items_convert)
      next
        case False
        with list_col [OF col pd(1)] obj pd(2) show ?thesis by simp
      qed
    qed
    from pd keys other items sel show
      "set required_columns \<subseteq> set (map fst (loaded_df sel))
         \<and> (\<forall>col\<in>set list_columns. \<forall>c\<in>set (column (loaded_df sel) col). is_items c)
         \<and> (\<forall>col. col \<notin> set list_columns \<longrightarrow> column (loaded_df sel) col = column df col)"
      by simp
  qed
  show "set required_columns \<subseteq> set (map fst df)
        \<and> (\<exists>col\<in>set list_columns. \<not> is_object_dtype (column df col))
      \<longrightarrow> PersonaSelector_init (Inr df) = Inl TypeError"
  proof (intro impI, elim conjE bexE)
    fix col
    assume req: "set required_columns \<subseteq> set (map fst df)"
      and col: "col \<in> set list_columns" and no: "\<not> is_object_dtype (column df col)"
    from req have "filter (\<lambda>col. col \<notin> set (map fst df)) required_columns = []"
      by (auto simp: filter_empty_conv)
    then have p: "prepare_dataframe df = Inr ?n3"
      by (simp add: prepare_dataframe_def Let_def list_columns_def normalize_column_def)
    from list_col [OF col req] no have "\<not> is_object_dtype (column ?n3 col)" by simp
    from cache_unique_values_not_object [OF col this] p show
      "PersonaSelector_init (Inr df) = Inl TypeError"
      by (simp add: PersonaSelector_init_def)
  qed
qed

theorem PersonaSelector_init_schema_witness:
  "PersonaSelector_init (Inr example_table_without_age) = Inl ValueError
   \<and> \<not> isl (PersonaSelector_init (Inr example_table))
   \<and> column (loaded_df (projr (PersonaSelector_init (Inr example_table)))) ''hobbies''
       = [Items [''chess'', ''golf''], Items []]
   \<and> list_all is_items
        (column (loaded_df (projr (PersonaSelector_init (Inr example_table)))) ''priorities'')"
proof -
  have miss: "\<exists>col\<in>set required_columns. col \<notin> set (map fst example_table_without_age)"
    by (intro bexI [of _ "''age''"])
       (simp_all add: required_columns_def example_table_without_age_def example_table_def)
  have ok: "\<not> isl (PersonaSelector_init (Inr example_table))" by code_simp
  then obtain sel where sel: "PersonaSelector_init (Inr example_table) = Inr sel"
    by (cases "PersonaSelector_init (Inr example_table)") auto
  have hob: "column (loaded_df (projr (PersonaSelector_init (Inr example_table)))) ''hobbies''
       = [Items [''chess'', ''golf''], Items []]"
    by code_simp
  have "''priorities'' \<in> set list_columns" by (simp add: list_columns_def)
  with PersonaSelector_init_schema [of example_table] sel
  have "\<forall>c\<in>set (column (loaded_df sel) ''priorities''). is_items c" by blast
  with PersonaSelector_init_schema [of example_table_without_age] miss ok hob sel
  show ?thesis by (simp add: list_all_iff)
qed

text \<open>
  C7 as stated fails: the second record of the example sheet has an empty name and an empty
  profession, the load succeeds, and the loaded record has the same two empty cells.
\<close>

theorem PersonaSelector_init_null_counterexample:
  "\<not> isl (PersonaSelector_init (Inr example_table))
   \<and> column example_table ''name'' = [Text ''Ann'', Null]
   \<and> column (loaded_df (projr (PersonaSelector_init (Inr example_table)))) ''name''
       = [Text ''Ann'', Null]
   \<and> column (loaded_df (projr (PersonaSelector_init (Inr example_table)))) ''profession''
       = [Text ''Software engineer'', Null]"
  by code_simp

section \<open>Properties of the persona selection\<close>

subsection \<open>DataFrame operations keep the store\<close>

lemma keeps_refl: "keeps L w w"
  by (simp add: keeps_def)

lemma keeps_trans: "keeps L w w1 \<Longrightarrow> keeps L w1 w2 \<Longrightarrow> keeps L w w2"
  by (auto simp: keeps_def)

lemma lands_return: "holds L rows fd w \<Longrightarrow> lands L rows w (return fd)"
  by (simp add: lands_def return_def keeps_refl)

lemma lands_bind:
  assumes "lands L rows1 w m"
    and "\<And>fd' w'. holds L rows1 fd' w' \<Longrightarrow> lands L rows2 w' (f fd')"
  shows "lands L rows2 w (bind m f)"
proof -
  from assms(1) obtain fd1 w1 where m: "m w = (Inr fd1, w1)" and h: "holds L rows1 fd1 w1"
    and k: "keeps L w w1" and d: "random_draws w1 = random_draws w"
    by (auto simp: lands_def)
  from assms(2) [OF h] obtain fd2 w2 where f: "f fd1 w1 = (Inr fd2, w2)"
    and h2: "holds L rows2 fd2 w2" and k2: "keeps L w1 w2"
    and d2: "random_draws w2 = random_draws w1"
    by (auto simp: lands_def)
  show ?thesis
    using m f h2 keeps_trans [OF k k2] d d2 by (simp add: lands_def bind_def)
qed

lemma lands_new: "L \<le> next_addr w \<Longrightarrow> lands L rows w (df_new rows)"
  by (simp add: lands_def df_new_def holds_def keeps_def)

lemma lands_copy: "L \<le> next_addr w \<Longrightarrow> lands L (frames w a) w (df_copy a)"
  using lands_new [of L w "frames w a"]
  by (simp add: lands_def df_copy_def bind_def df_rows_def)

lemma lands_mask: "holds L rows fd w \<Longrightarrow> lands L (filter keep rows) w (df_mask keep fd)"
  using lands_new [of L w "filter keep rows"]
  by (simp add: lands_def df_mask_def bind_def df_rows_def holds_def)

lemma lands_mask_if:
  "holds L rows fd w \<Longrightarrow>
   lands L (filter (\<lambda>r. c \<longrightarrow> keep r) rows) w (if c then df_mask keep fd else return fd)"
  by (simp add: lands_mask lands_return)

lemma set_column_holds:
  "holds L rows fd w \<Longrightarrow>
   \<exists>w'. df_set_column g fd w = (Inr (), w') \<and> holds L (map g rows) fd w' \<and> keeps L w w'
        \<and> random_draws w' = random_draws w"
  by (auto simp: df_set_column_def holds_def keeps_def)

lemma lands_score_mask_if:
  assumes "holds L rows fd w"
  shows "lands L (if c then filter keep (map g rows) else rows) w
           (if c then bind (df_set_column g fd) (\<lambda>_. df_mask keep fd) else return fd)"
proof (cases c)
  case False
  with assms show ?thesis by (simp add: lands_return)
next
  case True
  from set_column_holds [OF assms, of g] obtain w1 where
    s: "df_set_column g fd w = (Inr (), w1)" and h: "holds L (map g rows) fd w1"
    and k: "keeps L w w1" and d: "random_draws w1 = random_draws w"
    by blast
  from lands_mask [OF h, of keep] obtain fd2 w2 where
    m: "df_mask keep fd w1 = (Inr fd2, w2)" and h2: "holds L (filter keep (map g rows)) fd2 w2"
    and k2: "keeps L w1 w2" and d2: "random_draws w2 = random_draws w1"
    by (auto simp: lands_def)
  show ?thesis
    using True s m h2 keeps_trans [OF k k2] d d2 by (simp add: lands_def bind_def)
qed

lemma lands_age:
  "holds L rows fd w \<Longrightarrow>
   lands L (filter (\<lambda>r. case age_range c of None \<Rightarrow> True | Some (lo, hi) \<Rightarrow> lo \<le> age r \<and> age r \<le> hi) rows) w
     (case age_range c of
         Some (lo, hi) \<Rightarrow> df_mask (\<lambda>r. lo \<le> age r \<and> age r \<le> hi) fd
       | None \<Rightarrow> return fd)"
  by (cases "age_range c") (auto simp: lands_mask lands_return)

lemma lands_apply_filters:
  assumes "holds L rows fd w"
  shows "lands L (filter (scalar_ok c) rows) w (apply_filters c fd)"
proof -
  have eq: "filter (scalar_ok c) rows =
    filter (\<lambda>r. truthy (salary_ranges c) \<longrightarrow> salary_range r \<in> set (items (salary_ranges c)))
     (filter (\<lambda>r. truthy (nationalities c) \<longrightarrow> nationality r \<in> set (items (nationalities c)))
       (filter (\<lambda>r. truthy (professions c) \<longrightarrow> profession r \<in> set (items (professions c)))
         (filter (\<lambda>r. case age_range c of None \<Rightarrow> True
                       | Some (lo, hi) \<Rightarrow> lo \<le> age r \<and> age r \<le> hi) rows)))"
    by (auto simp: scalar_ok_def intro!: filter_cong)
  show ?thesis
    unfolding apply_filters_def eq
    apply (rule lands_bind [OF lands_age [OF assms]])
    apply (rule lands_bind [OF lands_mask_if], assumption)
    apply (rule lands_bind [OF lands_mask_if], assumption)
    apply (rule lands_mask_if, assumption)
    done
qed

lemma lands_apply_complex_filters:
  assumes "holds L rows fd w"
  shows "lands L (map (with_scores c) (filter (complex_ok c) rows)) w (apply_complex_filters c fd)"
proof -
  let ?g1 = "\<lambda>r. r\<lparr>hobby_match_count := Some (match_count (hobbies r) (desired_hobbies c))\<rparr>"
  let ?k1 = "\<lambda>r. at_least (min_matching_hobbies c) (hobby_match_count r)"
  let ?g2 = "\<lambda>r. r\<lparr>priority_match_count := Some (match_count (priorities r) (desired_priorities c))\<rparr>"
  let ?k2 = "\<lambda>r. at_least (min_matching_priorities c) (priority_match_count r)"
  let ?rows1 = "if truthy (desired_hobbies c) then filter ?k1 (map ?g1 rows) else rows"
  let ?rows2 = "if truthy (desired_priorities c) then filter ?k2 (map ?g2 ?rows1) else ?rows1"
  have eq: "map (with_scores c) (filter (complex_ok c) rows) = ?rows2"
    by (induction rows) (auto simp: with_scores_def complex_ok_def at_least_def Let_def)
  show ?thesis
    unfolding apply_complex_filters_def eq
    apply (rule lands_bind [OF lands_score_mask_if [OF assms]])
    apply (rule lands_score_mask_if, assumption)
    done
qed

lemma only_draws_return: "only_draws (return x)"
  unfolding only_draws_def return_def
proof
  fix w
  show "\<exists>ds. snd (Inr x, w) = w\<lparr>random_draws := ds\<rparr>"
    by (rule exI [of _ "random_draws w"]) simp
qed

lemma only_draws_raise: "only_draws (raise e)"
  unfolding only_draws_def raise_def
proof
  fix w
  show "\<exists>ds. snd (Inl e, w) = w\<lparr>random_draws := ds\<rparr>"
    by (rule exI [of _ "random_draws w"]) simp
qed

lemma only_draws_draw: "only_draws draw"
  unfolding only_draws_def draw_def
proof
  fix w
  show "\<exists>ds. snd (case random_draws w of [] \<Rightarrow> (Inr 0, w)
                   | d # ds \<Rightarrow> (Inr d, w\<lparr>random_draws := ds\<rparr>)) = w\<lparr>random_draws := ds\<rparr>"
    by (cases "random_draws w") (auto intro: exI [of _ "random_draws w"])
qed

lemma only_draws_bind:
  assumes "only_draws m" and "\<And>x. only_draws (f x)"
  shows "only_draws (bind m f)"
  unfolding only_draws_def
proof
  fix w
  from assms(1) obtain ds where m: "snd (m w) = w\<lparr>random_draws := ds\<rparr>"
    by (auto simp: only_draws_def)
  show "\<exists>ds. snd (bind m f w) = w\<lparr>random_draws := ds\<rparr>"
  proof (cases "fst (m w)")
    case (Inl e)
    with m show ?thesis by (cases "m w") (auto simp: bind_def)
  next
    case (Inr x)
    from assms(2) [of x] obtain ds' where
      "snd (f x (w\<lparr>random_draws := ds\<rparr>)) = w\<lparr>random_draws := ds, random_draws := ds'\<rparr>"
      unfolding only_draws_def by blast
    with m Inr show ?thesis by (cases "m w") (auto simp: bind_def)
  qed
qed

lemma only_draws_if: "only_draws a \<Longrightarrow> only_draws b \<Longrightarrow> only_draws (if c then a else b)"
  by simp

lemma only_draws_randint: "only_draws (randint a b)"
  by (simp add: randint_def only_draws_raise only_draws_bind only_draws_draw only_draws_return)

lemma only_draws_choice: "only_draws (choice xs)"
  by (simp add: choice_def only_draws_raise only_draws_bind only_draws_draw only_draws_return)

lemma only_draws_sample_loop: "only_draws (sample_loop pool k)"
  by (induction k arbitrary: pool)
     (simp_all add: only_draws_return only_draws_bind only_draws_draw)

lemma only_draws_sample: "only_draws (sample pool k)"
  by (simp add: sample_def only_draws_raise only_draws_sample_loop)

lemma only_draws_seeded: "only_draws (seeded d k)"
  by (simp add: seeded_def only_draws_sample only_draws_return)

lemmas only_draws_intros =
  only_draws_bind only_draws_return only_draws_raise only_draws_randint only_draws_choice
  only_draws_sample only_draws_seeded

lemma generate_random_persona_draws:
  "\<exists>ds. snd (generate_random_persona c w) = w\<lparr>random_draws := ds\<rparr>"
proof -
  have *: "\<And>m. only_draws m \<Longrightarrow> \<exists>ds. snd (m w) = w\<lparr>random_draws := ds\<rparr>"
    by (simp add: only_draws_def)
  show ?thesis
    unfolding generate_random_persona_def Let_def
    by (rule *) (intro only_draws_intros; simp split: option.split prod.split add: only_draws_intros)
qed

lemma only_draws_generate: "only_draws (generate_random_persona c)"
  unfolding only_draws_def using generate_random_persona_draws by blast

lemma only_draws_random_personas: "only_draws (random_personas c k)"
  by (induction k) (simp_all add: only_draws_intros only_draws_generate)

lemma only_draws_keeps:
  assumes "only_draws m" and "m w = (res, w')"
  shows "keeps L w w'" and "frames w' = frames w" and "next_addr w' = next_addr w"
proof -
  from assms obtain ds where "w' = w\<lparr>random_draws := ds\<rparr>"
    unfolding only_draws_def by (metis snd_conv)
  then show "keeps L w w'" "frames w' = frames w" "next_addr w' = next_addr w"
    by (simp_all add: keeps_def)
qed

subsection \<open>What the random functions return\<close>

lemma bind_InrE:
  assumes "bind m f w = (Inr y, w')"
  obtains x w1 where "m w = (Inr x, w1)" and "f x w1 = (Inr y, w')"
  using assms by (auto simp: bind_def split: prod.splits sum.splits)

lemma draw_Inr: "\<exists>d w1. draw w = (Inr d, w1)"
  by (cases "random_draws w") (auto simp: draw_def)

lemma randint_range:
  assumes "a \<le> b"
  shows "a \<le> a + int d mod (b - a + 1) \<and> a + int d mod (b - a + 1) \<le> b"
proof -
  have pos: "0 < b - a + 1" using assms by simp
  have "0 \<le> int d mod (b - a + 1)" by (rule pos_mod_sign [OF pos])
  moreover have "int d mod (b - a + 1) < b - a + 1" by (rule pos_mod_bound [OF pos])
  ultimately show ?thesis by linarith
qed

lemma randint_Inr:
  assumes "randint a b w = (Inr n, w')"
  shows "a \<le> n \<and> n \<le> b"
proof -
  from assms have ab: "a \<le> b" by (auto simp: randint_def raise_def split: if_splits)
  obtain d w1 where d: "draw w = (Inr d, w1)" using draw_Inr by blast
  from assms ab d have "n = a + int d mod (b - a + 1)"
    by (simp add: randint_def bind_def return_def)
  with randint_range [OF ab, of d] show ?thesis by simp
qed


lemma choice_Inr: "choice xs w = (Inr x, w') \<Longrightarrow> x \<in> set xs"
  by (auto simp: choice_def raise_def bind_def return_def draw_def split: if_splits list.splits)

lemma sample_loop_Inr:
  "k \<le> length pool \<Longrightarrow>
   \<exists>xs w'. sample_loop pool k w = (Inr xs, w') \<and> length xs = k \<and> set xs \<subseteq> set pool
           \<and> (distinct pool \<longrightarrow> distinct xs)"
proof (induction k arbitrary: pool w)
  case 0
  then show ?case by (simp add: return_def)
next
  case (Suc k)
  then have ne: "pool \<noteq> []" by auto
  obtain d w1 where d: "draw w = (Inr d, w1)"
    by (cases "random_draws w") (auto simp: draw_def)
  let ?i = "d mod length pool"
  let ?pool' = "take ?i pool @ drop (Suc ?i) pool"
  have i: "?i < length pool" using ne by simp
  have len: "k \<le> length ?pool'" using Suc.prems i by simp
  from Suc.IH [OF len, of w1] obtain xs w2 where
    xs: "sample_loop ?pool' k w1 = (Inr xs, w2)" "length xs = k" "set xs \<subseteq> set ?pool'"
    "distinct ?pool' \<longrightarrow> distinct xs"
    by blast
  have sub: "set ?pool' \<subseteq> set pool"
    by (auto dest: in_set_takeD in_set_dropD)
  have split: "pool = take ?i pool @ pool ! ?i # drop (Suc ?i) pool"
    using i by (simp add: id_take_nth_drop)
  have dist: "distinct pool \<Longrightarrow> distinct ?pool' \<and> pool ! ?i \<notin> set ?pool'"
  proof -
    assume "distinct pool"
    then have "distinct (take ?i pool @ pool ! ?i # drop (Suc ?i) pool)"
      using split by simp
    then show ?thesis by auto
  qed
  have "sample_loop pool (Suc k) w = (Inr (pool ! ?i # xs), w2)"
    using ne d xs(1) by (simp add: bind_def return_def)
  moreover have "set (pool ! ?i # xs) \<subseteq> set pool"
    using xs(3) sub i by auto
  moreover have "distinct pool \<longrightarrow> distinct (pool ! ?i # xs)"
    using dist xs(3,4) by auto
  ultimately show ?case using xs(2) by auto
qed

lemma sample_Inr:
  assumes "sample pool k w = (Inr xs, w')"
  shows "0 \<le> k \<and> int (length xs) = k \<and> set xs \<subseteq> set pool \<and> (distinct pool \<longrightarrow> distinct xs)"
proof -
  from assms have k: "0 \<le> k" "k \<le> int (length pool)"
    by (auto simp: sample_def raise_def split: if_splits)
  then have "nat k \<le> length pool" by simp
  from sample_loop_Inr [OF this, of w] assms k show ?thesis
    by (auto simp: sample_def)
qed

lemma sample_total:
  assumes "0 \<le> k" and "k \<le> int (length pool)"
  shows "\<exists>xs w'. sample pool k w = (Inr xs, w')"
proof -
  have "nat k \<le> length pool" using assms by simp
  from sample_loop_Inr [OF this, of w] assms show ?thesis
    by (auto simp: sample_def)
qed

lemma seeded_Inr:
  assumes "seeded desired m w = (Inr xs, w')"
  shows "set xs \<subseteq> set (items desired)
         \<and> (truthy desired \<longrightarrow> int (length xs) = min m (int (length (items desired))))
         \<and> (distinct (items desired) \<longrightarrow> distinct xs)"
  using assms sample_Inr [of "items desired" "min m (int (length (items desired)))" w xs w']
  by (auto simp: seeded_def return_def split: if_splits)












subsection \<open>The backfill loop and the trimming step\<close>

lemma random_personas_Inr:
  "random_personas c k w = (Inr ps, w') \<Longrightarrow>
   length ps = k \<and> (\<forall>p\<in>set ps. synthesized (self_unique_values w) c p)"
proof (induction k arbitrary: w ps w')
  case 0
  then show ?case by (simp add: return_def)
next
  case (Suc k)
  from Suc.prems obtain p w1 ps' w2 where
    g: "generate_random_persona c w = (Inr p, w1)"
    and r: "random_personas c k w1 = (Inr ps', w2)"
    and ps: "ps = p # ps'"
    by (auto elim!: bind_InrE simp: return_def)
  have uv: "self_unique_values w1 = self_unique_values w"
    using only_draws_keeps(1) [OF only_draws_generate g, of 0] by (simp add: keeps_def)
  have "synthesized (self_unique_values w) c p"
    using g by (auto simp: synthesized_def)
  with Suc.IH [OF r] uv ps show ?case by simp
qed

lemma from_series_as_row [simp]: "from_series (as_row p) = p"
  by (simp add: from_series_def as_row_def SelectedPersona.defs)

lemma from_series_with_scores [simp]: "from_series (with_scores c r) = from_series r"
  by (simp add: from_series_def with_scores_def SelectedPersona.defs Let_def)

lemma from_series_total_score [simp]: "from_series (r\<lparr>total_score := t\<rparr>) = from_series r"
  by (simp add: from_series_def SelectedPersona.defs)

lemma generate_if_needed_spec:
  assumes h: "holds L rows fd w" and run: "generate_if_needed c n b fd w = (res, w')"
  shows "keeps L w w'"
    and "\<not> (int (length rows) < n \<and> b) \<Longrightarrow> res = Inr fd \<and> w' = w"
    and "int (length rows) < n \<and> b \<Longrightarrow> res = Inr fd' \<Longrightarrow>
         \<exists>ps. holds L (rows @ map as_row ps) fd' w'
              \<and> int (length rows) + int (length ps) = n
              \<and> (\<forall>p\<in>set ps. synthesized (self_unique_values w) c p)"
proof -
  from h have fd: "L \<le> fd" "fd < next_addr w" "frames w fd = rows"
    by (simp_all add: holds_def)
  show no: "\<not> (int (length rows) < n \<and> b) \<Longrightarrow> res = Inr fd \<and> w' = w"
    using run fd by (auto simp: generate_if_needed_def bind_def df_rows_def return_def)
  let ?k = "nat (n - int (length rows))"
  obtain r1 w1 where r1: "random_personas c ?k w = (r1, w1)" by (cases "random_personas c ?k w")
  note k1 = only_draws_keeps [OF only_draws_random_personas r1]
  show "keeps L w w'"
  proof (cases "int (length rows) < n \<and> b")
    case False
    with no show ?thesis by (simp add: keeps_refl)
  next
    case True
    show ?thesis
    proof (cases r1)
      case (Inl e)
      with True run fd r1 have "w' = w1"
        by (auto simp: generate_if_needed_def bind_def df_rows_def)
      with k1(1) show ?thesis by simp
    next
      case (Inr ps)
      with True run fd r1 k1(2,3) have
        "w' = w1\<lparr>frames := (frames w1)(next_addr w := map as_row ps,
                     Suc (next_addr w) := rows @ map as_row ps),
                  next_addr := Suc (Suc (next_addr w))\<rparr>"
        by (auto simp: generate_if_needed_def bind_def df_rows_def df_new_def pd_concat_def)
      with k1(1) fd show ?thesis by (auto simp: keeps_def)
    qed
  qed
  show "\<exists>ps. holds L (rows @ map as_row ps) fd' w'
              \<and> int (length rows) + int (length ps) = n
              \<and> (\<forall>p\<in>set ps. synthesized (self_unique_values w) c p)"
    if True: "int (length rows) < n \<and> b" and res: "res = Inr fd'"
  proof (cases r1)
    case (Inl e)
    with True run fd r1 res show ?thesis
      by (auto simp: generate_if_needed_def bind_def df_rows_def)
  next
    case (Inr ps)
    with True run fd r1 k1(2,3) res have
      w': "w' = w1\<lparr>frames := (frames w1)(next_addr w := map as_row ps,
                     Suc (next_addr w) := rows @ map as_row ps),
                  next_addr := Suc (Suc (next_addr w))\<rparr>"
      and fd': "fd' = Suc (next_addr w)"
      by (auto simp: generate_if_needed_def bind_def df_rows_def df_new_def pd_concat_def)
    from random_personas_Inr [OF r1 [unfolded Inr]] True have
      "int (length rows) + int (length ps) = n"
      "\<forall>p\<in>set ps. synthesized (self_unique_values w) c p"
      by auto
    moreover have "holds L (rows @ map as_row ps) fd' w'"
      using fd fd' w' by (simp add: holds_def)
    ultimately show ?thesis by blast
  qed
qed

lemma length_nlargest_rows:
  "int (length (nlargest_rows n rows)) = (if n \<le> 0 then 0 else min n (int (length rows)))"
proof -
  have "length (filter (\<lambda>r. total_score r \<noteq> None) rows)
          + length (filter (\<lambda>r. total_score r = None) rows) = length rows"
    using sum_length_filter_compl [of "\<lambda>r. total_score r \<noteq> None" rows] by simp
  then show ?thesis by (auto simp: nlargest_rows_def)
qed

lemma set_nlargest_rows: "set (nlargest_rows n rows) \<subseteq> set rows"
  by (auto simp: nlargest_rows_def dest!: in_set_takeD)

lemma limit_personas_spec:
  assumes h: "holds L rows fd w" and run: "limit_personas c n fd w = (res, w')"
  shows "keeps L w w'"
    and "\<not> n < int (length rows) \<Longrightarrow> res = Inr fd \<and> w' = w"
    and "n < int (length rows) \<Longrightarrow> res = Inr fd' \<Longrightarrow>
         int (length (frames w' fd')) = max n 0
         \<and> set (map from_series (frames w' fd')) \<subseteq> set (map from_series rows)"
    and "n < int (length rows) \<Longrightarrow> 0 \<le> n \<Longrightarrow> \<exists>fd'. res = Inr fd'"
proof -
  from h have fd: "L \<le> fd" "fd < next_addr w" "frames w fd = rows"
    by (simp_all add: holds_def)
  let ?scoring = "truthy (desired_hobbies c) \<or> truthy (desired_priorities c)"
  let ?scored = "map (\<lambda>r. r\<lparr>total_score := Some (score_sum c r)\<rparr>) rows"
  show no: "\<not> n < int (length rows) \<Longrightarrow> res = Inr fd \<and> w' = w"
    using run fd by (auto simp: limit_personas_def bind_def df_rows_def return_def)
  have scoring: "res = Inr (next_addr w)
      \<and> w' = w\<lparr>frames := (frames w)(fd := ?scored, next_addr w := nlargest_rows n ?scored),
                next_addr := Suc (next_addr w)\<rparr>"
    if "n < int (length rows)" ?scoring
    using that run fd
    by (auto simp: limit_personas_def bind_def df_rows_def df_set_column_def df_nlargest_def
        df_new_def)
  have sampling: "limit_personas c n fd w = bind (sample rows n) df_new w"
    if "n < int (length rows)" "\<not> ?scoring"
    using that fd by (auto simp: limit_personas_def bind_def df_rows_def df_sample_def)
  obtain r1 w1 where r1: "sample rows n w = (r1, w1)" by (cases "sample rows n w")
  note k1 = only_draws_keeps [OF only_draws_sample r1]
  have sampled: "res = Inr (next_addr w)
      \<and> w' = w1\<lparr>frames := (frames w1)(next_addr w := xs), next_addr := Suc (next_addr w)\<rparr>"
    if "n < int (length rows)" "\<not> ?scoring" "r1 = Inr xs" for xs
    using sampling [OF that(1,2)] run r1 that(3) k1(3) by (simp add: bind_def df_new_def)
  have failed: "res = Inl e \<and> w' = w1"
    if "n < int (length rows)" "\<not> ?scoring" "r1 = Inl e" for e
    using sampling [OF that(1,2)] run r1 that(3) by (simp add: bind_def)
  show "keeps L w w'"
  proof (cases "n < int (length rows)")
    case False
    with no show ?thesis by (simp add: keeps_refl)
  next
    case True
    show ?thesis
    proof (cases ?scoring)
      case True
      with scoring [OF \<open>n < int (length rows)\<close>] fd show ?thesis by (auto simp: keeps_def)
    next
      case False
      show ?thesis
      proof (cases r1)
        case (Inl e)
        with failed [OF True False] k1(1) show ?thesis by simp
      next
        case (Inr xs)
        with sampled [OF True False] k1(1) fd show ?thesis by (auto simp: keeps_def)
      qed
    qed
  qed
  show "int (length (frames w' fd')) = max n 0
         \<and> set (map from_series (frames w' fd')) \<subseteq> set (map from_series rows)"
    if True: "n < int (length rows)" and res: "res = Inr fd'"
  proof (cases ?scoring)
    case True
    from scoring [OF \<open>n < int (length rows)\<close> True] res
    have fr: "frames w' fd' = nlargest_rows n ?scored"
      by auto
    have "set (map from_series (nlargest_rows n ?scored)) \<subseteq> set (map from_series ?scored)"
      using set_nlargest_rows [of n ?scored] by auto
    also have "map from_series ?scored = map from_series rows" by simp
    finally show ?thesis
      using \<open>n < int (length rows)\<close> by (simp add: fr length_nlargest_rows)
  next
    case False
    show ?thesis
    proof (cases r1)
      case (Inl e)
      with failed [OF True False] res show ?thesis by simp
    next
      case (Inr xs)
      from sampled [OF True False Inr] res have fr: "frames w' fd' = xs" by auto
      from sample_Inr [OF r1 [unfolded Inr]] show ?thesis by (auto simp: fr)
    qed
  qed
  show "\<exists>fd'. res = Inr fd'" if True: "n < int (length rows)" and n: "0 \<le> n"
  proof (cases ?scoring)
    case True
    with scoring [OF \<open>n < int (length rows)\<close>] show ?thesis by blast
  next
    case False
    from sample_total [of n rows w] True n r1 obtain xs where "r1 = Inr xs" by auto
    with sampled [OF True False] show ?thesis by blast
  qed
qed

lemma bind_assoc: "bind (bind m f) g = bind m (\<lambda>x. bind (f x) g)"
  by (rule ext) (simp add: bind_def split: prod.splits sum.splits)

lemma satisfies_nonempty_criteria_eq:
  "no_empty_list c \<Longrightarrow> satisfies_nonempty_criteria c p = satisfies_criteria c p"
  by (cases "professions c"; cases "nationalities c"; cases "salary_ranges c";
      cases "desired_hobbies c"; cases "desired_priorities c")
     (auto simp: no_empty_list_def satisfies_nonempty_criteria_def satisfies_criteria_def
        member_of_def enough_of_def truthy_def items_def match_count_def)


lemma satisfies_nonempty_criteria_split: "satisfies_nonempty_criteria c r = (scalar_ok c r \<and> complex_ok c r)"
  by (auto simp: satisfies_nonempty_criteria_def scalar_ok_def complex_ok_def)

lemma from_series_fields [simp]:
  "name (from_series r) = name r"
  "age (from_series r) = age r"
  "profession (from_series r) = profession r"
  "nationality (from_series r) = nationality r"
  "salary_range (from_series r) = salary_range r"
  "hobbies (from_series r) = hobbies r"
  "priorities (from_series r) = priorities r"
  "constraints (from_series r) = constraints r"
  by (simp_all add: from_series_def SelectedPersona.defs)

lemma satisfies_nonempty_criteria_from_series [simp]:
  "satisfies_nonempty_criteria c (from_series r) = satisfies_nonempty_criteria c r"
  by (simp add: satisfies_nonempty_criteria_def split: option.split)

lemma filter_ok_satisfies:
  "filter (complex_ok c) (filter (scalar_ok c) rows) = filter (satisfies_nonempty_criteria c) rows"
  by (induction rows) (auto simp: satisfies_nonempty_criteria_split)

lemma personas_matching:
  "map from_series (matching c w) = filter (satisfies_nonempty_criteria c) (store_personas w)"
proof -
  have "map from_series (matching c w)
        = map from_series (filter (satisfies_nonempty_criteria c) (frames w (self_df w)))"
    unfolding matching_def filter_ok_satisfies by (simp add: o_def)
  also have "\<dots> = filter (satisfies_nonempty_criteria c) (store_personas w)"
    by (simp add: store_personas_def filter_map o_def)
  finally show ?thesis .
qed


lemma filter_personas_prefix:
  assumes "self_df w < next_addr w"
  shows "\<exists>fd3 w3. holds (next_addr w) (matching c w) fd3 w3 \<and> keeps (next_addr w) w w3
           \<and> random_draws w3 = random_draws w
           \<and> filter_personas c n b w
               = bind (generate_if_needed c n b fd3) (limit_personas c n) w3"
proof -
  let ?L = "next_addr w"
  let ?pre = "bind (df_copy (self_df w)) (\<lambda>fd. bind (apply_filters c fd) (apply_complex_filters c))"
  have 1: "lands ?L (frames w (self_df w)) w (df_copy (self_df w))"
    by (rule lands_copy) simp
  have "lands ?L (matching c w) w ?pre"
    unfolding matching_def
    apply (rule lands_bind [OF 1])
    apply (rule lands_bind [OF lands_apply_filters], assumption)
    apply (rule lands_apply_complex_filters, assumption)
    done
  then obtain fd3 w3 where pre: "?pre w = (Inr fd3, w3)"
    and h: "holds ?L (matching c w) fd3 w3" and k: "keeps ?L w w3"
    and d: "random_draws w3 = random_draws w"
    by (auto simp: lands_def)
  have "filter_personas c n b w
        = bind ?pre (\<lambda>fd. bind (generate_if_needed c n b fd) (limit_personas c n)) w"
    by (simp add: filter_personas_def bind_assoc) (simp add: bind_def get_self_df_def)
  also have "\<dots> = bind (generate_if_needed c n b fd3) (limit_personas c n) w3"
    using pre by (simp add: bind_def)
  finally show ?thesis using h k d by blast
qed

lemma get_selected_personas_unfold:
  "get_selected_personas c n b w =
     (case filter_personas c n b w of
        (Inl e, w') \<Rightarrow> (Inl e, w')
      | (Inr fd, w') \<Rightarrow> (Inr (map from_series (frames w' fd)), w'))"
  by (simp add: get_selected_personas_def bind_def df_rows_def return_def
      split: prod.splits sum.splits)

lemma selection_spec:
  assumes wf: "self_df w < next_addr w"
    and run: "get_selected_personas c n b w = (res, w')"
  shows "keeps (next_addr w) w w'"
    and "res = Inr ps \<Longrightarrow> int (length (matching c w)) < n \<and> b \<Longrightarrow>
         \<exists>synth. ps = map from_series (matching c w) @ synth
           \<and> int (length (matching c w)) + int (length synth) = n
           \<and> (\<forall>p\<in>set synth. synthesized (self_unique_values w) c p)"
    and "res = Inr ps \<Longrightarrow> \<not> (int (length (matching c w)) < n \<and> b) \<Longrightarrow>
         n < int (length (matching c w)) \<Longrightarrow>
         int (length ps) = max n 0 \<and> set ps \<subseteq> set (map from_series (matching c w))"
    and "res = Inr ps \<Longrightarrow> \<not> (int (length (matching c w)) < n \<and> b) \<Longrightarrow>
         \<not> n < int (length (matching c w)) \<Longrightarrow> ps = map from_series (matching c w)"
    and "\<not> (int (length (matching c w)) < n \<and> b) \<Longrightarrow> 0 \<le> n \<Longrightarrow> \<exists>ps. res = Inr ps"
proof -
  let ?L = "next_addr w" and ?m = "matching c w"
  from filter_personas_prefix [OF wf, of c n b] obtain fd3 w3 where
    h3: "holds ?L ?m fd3 w3" and k3: "keeps ?L w w3"
    and fp: "filter_personas c n b w = bind (generate_if_needed c n b fd3) (limit_personas c n) w3"
    by blast
  obtain r4 w4 where g: "generate_if_needed c n b fd3 w3 = (r4, w4)"
    by (cases "generate_if_needed c n b fd3 w3")
  note gs = generate_if_needed_spec [OF h3 g]
  have k4: "keeps ?L w w4" using keeps_trans [OF k3 gs(1)] .
  have uv3: "self_unique_values w3 = self_unique_values w"
    using k3 by (simp add: keeps_def)
  show "keeps ?L w w'"
  proof (cases r4)
    case (Inl e)
    with run fp g have "w' = w4"
      by (auto simp: get_selected_personas_unfold bind_def)
    with k4 show ?thesis by simp
  next
    case (Inr fd4)
    obtain r5 w5 where l: "limit_personas c n fd4 w4 = (r5, w5)"
      by (cases "limit_personas c n fd4 w4")
    have h4: "\<exists>rows. holds ?L rows fd4 w4"
    proof (cases "int (length ?m) < n \<and> b")
      case True
      from gs(3) [OF True Inr] show ?thesis by blast
    next
      case False
      from gs(2) [OF False] Inr h3 show ?thesis by auto
    qed
    then obtain rows where "holds ?L rows fd4 w4" ..
    from limit_personas_spec(1) [OF this l] have "keeps ?L w4 w5" .
    moreover from run fp g Inr l have "w' = w5"
      by (auto simp: get_selected_personas_unfold bind_def split: sum.splits)
    ultimately show ?thesis using keeps_trans [OF k4] by simp
  qed
  show "\<exists>synth. ps = map from_series ?m @ synth
           \<and> int (length ?m) + int (length synth) = n
           \<and> (\<forall>p\<in>set synth. synthesized (self_unique_values w) c p)"
    if res: "res = Inr ps" and True: "int (length ?m) < n \<and> b"
  proof (cases r4)
    case (Inl e)
    with run fp g res show ?thesis
      by (auto simp: get_selected_personas_unfold bind_def)
  next
    case (Inr fd4)
    from gs(3) [OF True Inr] obtain synth where
      h4: "holds ?L (?m @ map as_row synth) fd4 w4"
      and len: "int (length ?m) + int (length synth) = n"
      and syn: "\<forall>p\<in>set synth. synthesized (self_unique_values w3) c p"
      by blast
    obtain r5 w5 where l: "limit_personas c n fd4 w4 = (r5, w5)"
      by (cases "limit_personas c n fd4 w4")
    have "\<not> n < int (length (?m @ map as_row synth))" using len by simp
    from limit_personas_spec(2) [OF h4 l this] have r5: "r5 = Inr fd4" "w5 = w4" by simp_all
    from run fp g Inr l r5 res have "ps = map from_series (frames w4 fd4)"
      by (auto simp: get_selected_personas_unfold bind_def)
    also have "frames w4 fd4 = ?m @ map as_row synth" using h4 by (simp add: holds_def)
    finally have "ps = map from_series ?m @ synth" by (simp add: o_def)
    with len syn uv3 show ?thesis by auto
  qed
  have nofill: "r4 = Inr fd3 \<and> w4 = w3" if "\<not> (int (length ?m) < n \<and> b)"
    using gs(2) [OF that] .
  obtain r5 w5 where l: "limit_personas c n fd3 w3 = (r5, w5)"
    by (cases "limit_personas c n fd3 w3")
  note ls = limit_personas_spec [OF h3 l]
  have out: "res = (case r5 of Inl e \<Rightarrow> Inl e | Inr fd \<Rightarrow> Inr (map from_series (frames w5 fd)))"
    if "\<not> (int (length ?m) < n \<and> b)"
    using run fp g nofill [OF that] l
    by (auto simp: get_selected_personas_unfold bind_def split: sum.splits)
  show "int (length ps) = max n 0 \<and> set ps \<subseteq> set (map from_series ?m)"
    if res: "res = Inr ps" and no: "\<not> (int (length ?m) < n \<and> b)" and big: "n < int (length ?m)"
  proof -
    from out [OF no] res obtain fd5 where r5: "r5 = Inr fd5"
      and ps: "ps = map from_series (frames w5 fd5)"
      by (cases r5) auto
    from ls(3) [OF big r5] show ?thesis by (simp add: ps)
  qed
  show "ps = map from_series ?m"
    if res: "res = Inr ps" and no: "\<not> (int (length ?m) < n \<and> b)" and small: "\<not> n < int (length ?m)"
  proof -
    from ls(2) [OF small] have "r5 = Inr fd3" "w5 = w3" by simp_all
    with out [OF no] res h3 show ?thesis by (simp add: holds_def)
  qed
  show "\<exists>ps. res = Inr ps" if no: "\<not> (int (length ?m) < n \<and> b)" and n: "0 \<le> n"
  proof (cases "n < int (length ?m)")
    case True
    from ls(4) [OF True n] out [OF no] show ?thesis by auto
  next
    case False
    from ls(2) [OF False] out [OF no] show ?thesis by auto
  qed
qed






lemma match_count_seed:
  assumes "set seed \<subseteq> set (items d)" and "distinct seed"
  shows "int (length seed) \<le> match_count (seed @ extra) d"
proof -
  have "card (set seed) \<le> card (set (seed @ extra) \<inter> set (items d))"
    by (rule card_mono) (use assms(1) in auto)
  with assms(2) show ?thesis by (simp add: match_count_def distinct_card)
qed

text \<open>
  C3, as amended. A persona \<open>_generate_random_persona\<close> returns has the name
  \<open>RandomPersona_\<close> followed by a number from 1000 to 9999: it differs from the name of
  every record of the store as long as no record has a name that starts with
  \<open>RandomPersona_\<close> (nothing compares the name with the store). Its age is in the requested
  range (18 to 80 without one). Each categorical field is drawn from its allow-list when the
  list is given and not empty, and from the catalog otherwise. For each desired list that is
  given and not empty its values start with \<open>min(minimum, length of the list)\<close> entries
  sampled from the list. So the persona satisfies the criteria when no allow-list is given
  empty and every desired list given has no duplicate and at least as many entries as its
  minimum asks for.
\<close>

theorem generate_random_persona_respects_criteria:
  assumes "generate_random_persona c w = (Inr p, w')"
  shows "(\<exists>n. 1000 \<le> n \<and> n \<le> 9999 \<and> name p = ''RandomPersona_'' @ str_of_int n)
    \<and> ((\<forall>q\<in>set (store_personas w). \<not> prefix ''RandomPersona_'' (name q))
          \<longrightarrow> name p \<notin> set (map name (store_personas w)))
    \<and> (case age_range c of
         Some (lo, hi) \<Rightarrow> lo \<le> age p \<and> age p \<le> hi
       | None \<Rightarrow> 18 \<le> age p \<and> age p \<le> 80)
    \<and> profession p \<in> set (if truthy (professions c) then items (professions c)
                            else uv_professions (self_unique_values w))
    \<and> nationality p \<in> set (if truthy (nationalities c) then items (nationalities c)
                             else uv_nationalities (self_unique_values w))
    \<and> salary_range p \<in> set (if truthy (salary_ranges c) then items (salary_ranges c)
                              else uv_salary_ranges (self_unique_values w))
    \<and> (truthy (desired_hobbies c) \<longrightarrow>
          (\<exists>seed extra. hobbies p = seed @ extra
             \<and> set seed \<subseteq> set (items (desired_hobbies c))
             \<and> int (length seed)
                 = min (min_matching_hobbies c) (int (length (items (desired_hobbies c))))))
    \<and> (truthy (desired_priorities c) \<longrightarrow>
          (\<exists>seed extra. priorities p = seed @ extra
             \<and> set seed \<subseteq> set (items (desired_priorities c))
             \<and> int (length seed)
                 = min (min_matching_priorities c) (int (length (items (desired_priorities c))))))
    \<and> (professions c \<noteq> Some [] \<and> nationalities c \<noteq> Some [] \<and> salary_ranges c \<noteq> Some []
        \<and> seedable (desired_hobbies c) (min_matching_hobbies c)
        \<and> seedable (desired_priorities c) (min_matching_priorities c)
        \<longrightarrow> satisfies_criteria c p)"
proof -
  let ?uv = "self_unique_values w"
  from assms obtain n w1 a w2 pr w3 na w4 sa w5 h0 w6 kh w7 rh w8 p0 w9 kp w10 rp w11 kc w12 cs
    where n: "randint 1000 9999 w = (Inr n, w1)"
      and a: "(case age_range c of Some (lo, hi) \<Rightarrow> randint lo hi | None \<Rightarrow> randint 18 80) w1
                = (Inr a, w2)"
      and pr: "choice (if truthy (professions c) then items (professions c)
                       else uv_professions ?uv) w2 = (Inr pr, w3)"
      and na: "choice (if truthy (nationalities c) then items (nationalities c)
                       else uv_nationalities ?uv) w3 = (Inr na, w4)"
      and sa: "choice (if truthy (salary_ranges c) then items (salary_ranges c)
                       else uv_salary_ranges ?uv) w4 = (Inr sa, w5)"
      and h0: "seeded (desired_hobbies c) (min_matching_hobbies c) w5 = (Inr h0, w6)"
      and kh: "randint 1 3 w6 = (Inr kh, w7)"
      and rh: "sample (filter (\<lambda>h. h \<notin> set h0) (uv_hobbies ?uv)) kh w7 = (Inr rh, w8)"
      and p0: "seeded (desired_priorities c) (min_matching_priorities c) w8 = (Inr p0, w9)"
      and kp: "randint 1 2 w9 = (Inr kp, w10)"
      and rp: "sample (filter (\<lambda>p. p \<notin> set p0) (uv_priorities ?uv)) kp w10 = (Inr rp, w11)"
      and kc: "randint 1 2 w11 = (Inr kc, w12)"
      and cs: "sample (uv_constraints ?uv) kc w12 = (Inr cs, w')"
      and p: "p = \<lparr>name = ''RandomPersona_'' @ str_of_int n, age = a, profession = pr,
                   nationality = na, salary_range = sa, hobbies = h0 @ rh,
                   priorities = p0 @ rp, constraints = cs\<rparr>"
    unfolding generate_random_persona_def Let_def
    by (elim bind_InrE) (auto simp: return_def)
  have name: "\<exists>n. 1000 \<le> n \<and> n \<le> 9999 \<and> name p = ''RandomPersona_'' @ str_of_int n"
    using randint_Inr [OF n] p by auto
  have fresh: "(\<forall>q\<in>set (store_personas w). \<not> prefix ''RandomPersona_'' (name q))
          \<longrightarrow> name p \<notin> set (map name (store_personas w))"
  proof
    assume other: "\<forall>q\<in>set (store_personas w). \<not> prefix ''RandomPersona_'' (name q)"
    have "prefix ''RandomPersona_'' (name p)" using p by simp
    with other show "name p \<notin> set (map name (store_personas w))" by auto
  qed
  have age: "case age_range c of
         Some (lo, hi) \<Rightarrow> lo \<le> age p \<and> age p \<le> hi
       | None \<Rightarrow> 18 \<le> age p \<and> age p \<le> 80"
    using a p by (auto split: option.splits dest: randint_Inr)
  have prof: "profession p \<in> set (if truthy (professions c) then items (professions c)
                            else uv_professions ?uv)"
    using choice_Inr [OF pr] p by simp
  have nat: "nationality p \<in> set (if truthy (nationalities c) then items (nationalities c)
                             else uv_nationalities ?uv)"
    using choice_Inr [OF na] p by simp
  have sal: "salary_range p \<in> set (if truthy (salary_ranges c) then items (salary_ranges c)
                              else uv_salary_ranges ?uv)"
    using choice_Inr [OF sa] p by simp
  note sh = seeded_Inr [OF h0] and sp = seeded_Inr [OF p0]
  have hob: "truthy (desired_hobbies c) \<longrightarrow>
          (\<exists>seed extra. hobbies p = seed @ extra
             \<and> set seed \<subseteq> set (items (desired_hobbies c))
             \<and> int (length seed)
                 = min (min_matching_hobbies c) (int (length (items (desired_hobbies c)))))"
    using sh p by auto
  have pri: "truthy (desired_priorities c) \<longrightarrow>
          (\<exists>seed extra. priorities p = seed @ extra
             \<and> set seed \<subseteq> set (items (desired_priorities c))
             \<and> int (length seed)
                 = min (min_matching_priorities c) (int (length (items (desired_priorities c)))))"
    using sp p by auto
  have member: "member_of x allow"
    if "allow \<noteq> Some []" "x \<in> set (if truthy allow then items allow else other)"
    for x allow other
    using that by (cases allow) (auto simp: member_of_def truthy_def items_def)
  have enough: "enough_of (seed @ extra) d m"
    if "seedable d m" "set seed \<subseteq> set (items d)"
      "truthy d \<longrightarrow> int (length seed) = min m (int (length (items d)))"
      "distinct (items d) \<longrightarrow> distinct seed"
    for seed extra d m
  proof (cases d)
    case None
    then show ?thesis by (simp add: enough_of_def)
  next
    case (Some xs)
    show ?thesis
    proof (cases "xs = []")
      case True
      with Some that(1) show ?thesis by (simp add: enough_of_def seedable_def)
    next
      case False
      with Some that have "distinct seed" "int (length seed) = m"
        by (auto simp: seedable_def truthy_def items_def)
      with match_count_seed [OF that(2), of extra] Some show ?thesis
        by (simp add: enough_of_def match_count_def items_def)
    qed
  qed
  have sat: "satisfies_criteria c p"
    if "professions c \<noteq> Some [] \<and> nationalities c \<noteq> Some [] \<and> salary_ranges c \<noteq> Some []
        \<and> seedable (desired_hobbies c) (min_matching_hobbies c)
        \<and> seedable (desired_priorities c) (min_matching_priorities c)"
  proof -
    have "enough_of (hobbies p) (desired_hobbies c) (min_matching_hobbies c)"
      using enough [of "desired_hobbies c" "min_matching_hobbies c" h0 rh] that sh p by simp
    moreover have "enough_of (priorities p) (desired_priorities c) (min_matching_priorities c)"
      using enough [of "desired_priorities c" "min_matching_priorities c" p0 rp] that sp p by simp
    ultimately show ?thesis
      using age member [OF _ prof] member [OF _ nat] member [OF _ sal] that
      by (auto simp: satisfies_criteria_def split: option.splits)
  qed
  from name fresh age prof nat sal hob pri sat show ?thesis by blast
qed

theorem generate_random_persona_respects_criteria_witness:
  "fst (generate_random_persona example_hobby_criteria example_world)
     = Inr \<lparr>name = ''RandomPersona_1234'', age = 32, profession = ''Software engineer'',
            nationality = ''French'', salary_range = ''50k-70k'',
            hobbies = [''chess'', ''reading'', ''tennis'', ''golf''],
            priorities = [''price''], constraints = [''space'', ''budget'']\<rparr>
   \<and> satisfies_criteria example_hobby_criteria
        \<lparr>name = ''RandomPersona_1234'', age = 32, profession = ''Software engineer'',
            nationality = ''French'', salary_range = ''50k-70k'',
            hobbies = [''chess'', ''reading'', ''tennis'', ''golf''],
            priorities = [''price''], constraints = [''space'', ''budget'']\<rparr>
   \<and> ''RandomPersona_1234'' \<notin> set (map name (store_personas example_world))"
proof -
  let ?p = "\<lparr>name = ''RandomPersona_1234'', age = 32, profession = ''Software engineer'',
            nationality = ''French'', salary_range = ''50k-70k'',
            hobbies = [''chess'', ''reading'', ''tennis'', ''golf''],
            priorities = [''price''], constraints = [''space'', ''budget'']\<rparr>"
  have run: "fst (generate_random_persona example_hobby_criteria example_world) = Inr ?p"
    by code_simp
  then obtain w' where
    h: "generate_random_persona example_hobby_criteria example_world = (Inr ?p, w')"
    by (cases "generate_random_persona example_hobby_criteria example_world") simp
  have lists: "professions example_hobby_criteria \<noteq> Some []
        \<and> nationalities example_hobby_criteria \<noteq> Some []
        \<and> salary_ranges example_hobby_criteria \<noteq> Some []
        \<and> seedable (desired_hobbies example_hobby_criteria)
             (min_matching_hobbies example_hobby_criteria)
        \<and> seedable (desired_priorities example_hobby_criteria)
             (min_matching_priorities example_hobby_criteria)"
    by (simp add: example_hobby_criteria_def example_criteria_def seedable_def)
  have names: "\<forall>q\<in>set (store_personas example_world). \<not> prefix ''RandomPersona_'' (name q)"
    by code_simp
  from generate_random_persona_respects_criteria [OF h] lists names run show ?thesis
    by simp
qed

text \<open>
  C3 as stated fails, in four ways. With the desired hobbies \<open>chess\<close> alone and a minimum of
  two, the code samples \<open>min(2, 1) = 1\<close> desired hobby and pads with other hobbies: the
  persona matches one desired hobby. With the desired hobbies \<open>chess, chess, golf\<close> and a
  minimum of two, the sample takes the two entries \<open>chess\<close>: again one match. With the
  allow-list of professions given as the empty list, the profession is drawn from the
  catalog and is in no allow-list. And in a store that has a record named
  \<open>RandomPersona_1234\<close>, the generated name is the name of that record.
\<close>

theorem generate_random_persona_counterexample:
  "fst (generate_random_persona example_strict_criteria example_world)
     = Inr \<lparr>name = ''RandomPersona_1234'', age = 32, profession = ''Software engineer'',
            nationality = ''French'', salary_range = ''50k-70k'',
            hobbies = [''chess'', ''reading'', ''tennis'', ''golf''],
            priorities = [''price''], constraints = [''space'', ''budget'']\<rparr>
   \<and> desired_hobbies example_strict_criteria = Some [''chess'']
   \<and> min_matching_hobbies example_strict_criteria = 2
   \<and> card (set [''chess'', ''reading'', ''tennis'', ''golf''] \<inter> set [''chess'']) = 1
   \<and> \<not> satisfies_criteria example_strict_criteria
        \<lparr>name = ''RandomPersona_1234'', age = 32, profession = ''Software engineer'',
            nationality = ''French'', salary_range = ''50k-70k'',
            hobbies = [''chess'', ''reading'', ''tennis'', ''golf''],
            priorities = [''price''], constraints = [''space'', ''budget'']\<rparr>
   \<and> fst (generate_random_persona example_duplicate_criteria example_duplicate_world)
     = Inr \<lparr>name = ''RandomPersona_1234'', age = 32, profession = ''Software engineer'',
            nationality = ''French'', salary_range = ''50k-70k'',
            hobbies = [''chess'', ''chess'', ''reading''],
            priorities = [''price''], constraints = [''budget'']\<rparr>
   \<and> desired_hobbies example_duplicate_criteria = Some [''chess'', ''chess'', ''golf'']
   \<and> min_matching_hobbies example_duplicate_criteria = 2
   \<and> card (set [''chess'', ''chess'', ''reading''] \<inter> set [''chess'', ''chess'', ''golf'']) = 1
   \<and> \<not> satisfies_criteria example_duplicate_criteria
        \<lparr>name = ''RandomPersona_1234'', age = 32, profession = ''Software engineer'',
            nationality = ''French'', salary_range = ''50k-70k'',
            hobbies = [''chess'', ''chess'', ''reading''],
            priorities = [''price''], constraints = [''budget'']\<rparr>
   \<and> fst (generate_random_persona example_empty_allow_criteria example_world)
     = Inr \<lparr>name = ''RandomPersona_1234'', age = 25, profession = ''Teacher'',
            nationality = ''French'', salary_range = ''50k-70k'', hobbies = [''reading''],
            priorities = [''quality'', ''price''], constraints = [''budget'']\<rparr>
   \<and> professions example_empty_allow_criteria = Some []
   \<and> \<not> satisfies_criteria example_empty_allow_criteria
        \<lparr>name = ''RandomPersona_1234'', age = 25, profession = ''Teacher'',
            nationality = ''French'', salary_range = ''50k-70k'', hobbies = [''reading''],
            priorities = [''quality'', ''price''], constraints = [''budget'']\<rparr>
   \<and> fst (generate_random_persona example_criteria example_named_world)
     = Inr \<lparr>name = ''RandomPersona_1234'', age = 32, profession = ''Software engineer'',
            nationality = ''French'', salary_range = ''50k-70k'', hobbies = [''reading''],
            priorities = [''quality'', ''price''], constraints = [''budget'']\<rparr>
   \<and> ''RandomPersona_1234'' \<in> set (map name (store_personas example_named_world))"
  by (intro conjI; code_simp)

subsection \<open>The claims on the selection\<close>




text \<open>
  C2, as amended. The personas a call returns are records of the store followed by the
  personas of the backfill (none unless backfill is on, and then the records before them
  are all the records that pass). Each of the records satisfies the age range and every
  constraint of the criteria whose list is given and not empty; when no list is given
  empty, that is every constraint of the criteria as the specification words them.
\<close>

theorem selected_personas_satisfy_criteria:
  assumes "self_df w < next_addr w"
    and "get_selected_personas c n b w = (Inr ps, w')"
  shows "\<exists>reals synth.
           ps = reals @ synth
           \<and> set reals \<subseteq> set (store_personas w)
           \<and> (\<forall>p\<in>set reals. satisfies_nonempty_criteria c p)
           \<and> (no_empty_list c \<longrightarrow> (\<forall>p\<in>set reals. satisfies_criteria c p))
           \<and> (\<forall>p\<in>set synth. synthesized (self_unique_values w) c p)
           \<and> (synth \<noteq> [] \<longrightarrow>
                b \<and> reals = filter (satisfies_nonempty_criteria c) (store_personas w))"
proof -
  let ?m = "matching c w"
  let ?real = "filter (satisfies_nonempty_criteria c) (store_personas w)"
  note sp = selection_spec [OF assms]
  have pm: "map from_series ?m = ?real" by (rule personas_matching)
  have claim: "\<forall>p\<in>set reals. satisfies_criteria c p"
    if "set reals \<subseteq> set ?real" "no_empty_list c" for reals
    using that satisfies_nonempty_criteria_eq [of c] by auto
  show ?thesis
  proof (cases "int (length ?m) < n \<and> b")
    case True
    from sp(2) [OF refl True] obtain synth where
      "ps = ?real @ synth" "\<forall>p\<in>set synth. synthesized (self_unique_values w) c p"
      by (auto simp: pm)
    with True claim [of ?real] show ?thesis
      by (intro exI [of _ ?real] exI [of _ synth]) auto
  next
    case False
    have "set ps \<subseteq> set ?real"
    proof (cases "n < int (length ?m)")
      case True
      from sp(3) [OF refl False True] show ?thesis by (simp add: pm)
    next
      case False
      from sp(4) [OF refl \<open>\<not> (int (length ?m) < n \<and> b)\<close> False] show ?thesis by (simp add: pm)
    qed
    with claim [of ps] show ?thesis
      by (intro exI [of _ ps] exI [of _ "[]"]) auto
  qed
qed

text \<open>
  C2 as stated fails: with the allow-list of professions given as the empty list, the call
  returns the two records of the store, whose professions are in no allow-list; with the
  desired hobbies given as the empty list and a minimum of one, it returns them too, though
  no hobby of theirs is in the desired set.
\<close>

theorem selected_personas_empty_list_counterexample:
  "fst (get_selected_personas example_empty_allow_criteria 5 False example_world)
     = Inr [example_ann, example_bob]
   \<and> example_ann \<in> set (store_personas example_world)
   \<and> professions example_empty_allow_criteria = Some []
   \<and> profession example_ann \<notin> set []
   \<and> \<not> satisfies_criteria example_empty_allow_criteria example_ann
   \<and> fst (get_selected_personas example_empty_desired_criteria 5 False example_world)
     = Inr [example_ann, example_bob]
   \<and> desired_hobbies example_empty_desired_criteria = Some []
   \<and> min_matching_hobbies example_empty_desired_criteria = 1
   \<and> card (set (hobbies example_ann) \<inter> set []) = 0
   \<and> \<not> satisfies_criteria example_empty_desired_criteria example_ann"
  by (intro conjI; code_simp)

theorem selected_personas_satisfy_criteria_witness:
  "self_df example_world < next_addr example_world
   \<and> no_empty_list example_hobby_criteria
   \<and> desired_hobbies example_hobby_criteria = Some [''chess'', ''golf'']
   \<and> min_matching_hobbies example_hobby_criteria = 1
   \<and> fst (get_selected_personas example_hobby_criteria 3 False example_world) = Inr [example_ann]
   \<and> satisfies_criteria example_hobby_criteria example_ann
   \<and> no_empty_list example_criteria
   \<and> fst (get_selected_personas example_criteria 3 True example_world)
       = Inr [example_ann,
              \<lparr>name = ''RandomPersona_1234'', age = 32, profession = ''Software engineer'',
               nationality = ''French'', salary_range = ''50k-70k'', hobbies = [''reading''],
               priorities = [''quality'', ''price''], constraints = [''budget'']\<rparr>,
              \<lparr>name = ''RandomPersona_1001'', age = 26, profession = ''Software engineer'',
               nationality = ''French'', salary_range = ''50k-70k'', hobbies = [''chess''],
               priorities = [''price''], constraints = [''budget'']\<rparr>]
   \<and> (\<exists>reals synth.
         [example_ann,
          \<lparr>name = ''RandomPersona_1234'', age = 32, profession = ''Software engineer'',
               nationality = ''French'', salary_range = ''50k-70k'', hobbies = [''reading''],
               priorities = [''quality'', ''price''], constraints = [''budget'']\<rparr>,
          \<lparr>name = ''RandomPersona_1001'', age = 26, profession = ''Software engineer'',
               nationality = ''French'', salary_range = ''50k-70k'', hobbies = [''chess''],
               priorities = [''price''], constraints = [''budget'']\<rparr>] = reals @ synth
         \<and> set reals \<subseteq> set (store_personas example_world)
         \<and> list_all (satisfies_criteria example_criteria) reals
         \<and> list_all (synthesized (self_unique_values example_world) example_criteria) synth)"
proof -
  let ?ps = "[example_ann,
              \<lparr>name = ''RandomPersona_1234'', age = 32, profession = ''Software engineer'',
               nationality = ''French'', salary_range = ''50k-70k'', hobbies = [''reading''],
               priorities = [''quality'', ''price''], constraints = [''budget'']\<rparr>,
              \<lparr>name = ''RandomPersona_1001'', age = 26, profession = ''Software engineer'',
               nationality = ''French'', salary_range = ''50k-70k'', hobbies = [''chess''],
               priorities = [''price''], constraints = [''budget'']\<rparr>]"
  have wf: "self_df example_world < next_addr example_world"
    by (simp add: example_world_def)
  have ne1: "no_empty_list example_hobby_criteria"
    by (simp add: no_empty_list_def example_hobby_criteria_def example_criteria_def)
  have ne2: "no_empty_list example_criteria"
    by (simp add: no_empty_list_def example_criteria_def)
  have c: "desired_hobbies example_hobby_criteria = Some [''chess'', ''golf'']"
    "min_matching_hobbies example_hobby_criteria = 1"
    by (simp_all add: example_hobby_criteria_def example_criteria_def)
  have run1: "fst (get_selected_personas example_hobby_criteria 3 False example_world)
                = Inr [example_ann]"
    by code_simp
  then obtain w1 where
    h1: "get_selected_personas example_hobby_criteria 3 False example_world
           = (Inr [example_ann], w1)"
    by (cases "get_selected_personas example_hobby_criteria 3 False example_world") simp
  from selected_personas_satisfy_criteria [OF wf h1] ne1 obtain reals synth where
    "[example_ann] = reals @ synth" "synth \<noteq> [] \<longrightarrow> False"
    "\<forall>p\<in>set reals. satisfies_criteria example_hobby_criteria p"
    by blast
  then have ann: "satisfies_criteria example_hobby_criteria example_ann"
    by auto
  have run2: "fst (get_selected_personas example_criteria 3 True example_world) = Inr ?ps"
    by code_simp
  then obtain w2 where
    h2: "get_selected_personas example_criteria 3 True example_world = (Inr ?ps, w2)"
    by (cases "get_selected_personas example_criteria 3 True example_world") simp
  from selected_personas_satisfy_criteria [OF wf h2] ne2 have
    "\<exists>reals synth. ?ps = reals @ synth
         \<and> set reals \<subseteq> set (store_personas example_world)
         \<and> list_all (satisfies_criteria example_criteria) reals
         \<and> list_all (synthesized (self_unique_values example_world) example_criteria) synth"
    by (simp add: list_all_iff) blast
  with wf ne1 ne2 c run1 ann run2 show ?thesis by blast
qed

text \<open>
  C9. Whatever a selection returns or raises, afterwards every DataFrame that existed
  before has the rows it had, \<open>self.df\<close> is the same object with the same rows, and the
  cached catalog is the same; \<open>get_unique_values\<close> changes nothing. So two calls of
  \<open>get_unique_values\<close> return equal catalogs, also with a selection in between.
\<close>

theorem selection_and_catalog_do_not_mutate:
  assumes "self_df w < next_addr w"
  shows "(\<forall>c n b res w'. get_selected_personas c n b w = (res, w') \<longrightarrow>
            (\<forall>a<next_addr w. frames w' a = frames w a)
            \<and> self_df w' = self_df w
            \<and> frames w' (self_df w') = frames w (self_df w)
            \<and> self_unique_values w' = self_unique_values w
            \<and> self_df w' < next_addr w'
            \<and> fst (get_unique_values w') = fst (get_unique_values w))
       \<and> snd (get_unique_values w) = w
       \<and> fst (get_unique_values (snd (get_unique_values w))) = fst (get_unique_values w)"
proof -
  have sel: "(\<forall>a<next_addr w. frames w' a = frames w a)
            \<and> self_df w' = self_df w
            \<and> frames w' (self_df w') = frames w (self_df w)
            \<and> self_unique_values w' = self_unique_values w
            \<and> self_df w' < next_addr w'
            \<and> fst (get_unique_values w') = fst (get_unique_values w)"
    if run: "get_selected_personas c n b w = (res, w')" for c n b res w'
  proof -
    from selection_spec(1) [OF assms run] have k: "keeps (next_addr w) w w'" .
    with assms show ?thesis
      by (auto simp: keeps_def get_unique_values_def)
  qed
  have "snd (get_unique_values w) = w"
    "fst (get_unique_values (snd (get_unique_values w))) = fst (get_unique_values w)"
    by (simp_all add: get_unique_values_def)
  with sel show ?thesis by blast
qed

theorem selection_and_catalog_do_not_mutate_witness:
  "self_df example_world < next_addr example_world
   \<and> frames (snd (get_selected_personas example_criteria 3 True example_world)) 0
       = [as_row example_ann, as_row example_bob]
   \<and> fst (get_unique_values (snd (get_selected_personas example_criteria 3 True example_world)))
       = Inr example_catalog
   \<and> fst (get_unique_values example_world) = Inr example_catalog"
proof -
  have wf: "self_df example_world < next_addr example_world"
    by (simp add: example_world_def)
  obtain res w' where
    run: "get_selected_personas example_criteria 3 True example_world = (res, w')"
    by (cases "get_selected_personas example_criteria 3 True example_world")
  from selection_and_catalog_do_not_mutate [OF wf] run
  have "frames w' (self_df w') = frames example_world (self_df example_world)"
    "self_df w' = self_df example_world"
    "fst (get_unique_values w') = fst (get_unique_values example_world)"
    by blast+
  with wf run show ?thesis
    by (simp add: example_world_def get_unique_values_def)
qed

section \<open>Properties of the orchestration\<close>

lemma subseq_succeeded: "subseq (succeeded ps replies) ps"
  by (induction ps replies rule: succeeded.induct) auto

lemma length_succeeded: "length (succeeded ps replies) \<le> length ps"
  by (induction ps replies rule: succeeded.induct) auto

lemma generate_review_raises:
  assumes "model self = Some client"
  shows "backend_replies w = [] \<Longrightarrow>
           generate_review self product profile w = (Inl (BackendError []), w)"
    and "backend_replies w = Inl msg # rest \<Longrightarrow>
           generate_review self product profile w
             = (Inl (BackendError msg), w\<lparr>backend_replies := rest\<rparr>)"
  using assms
  by (simp_all add: generate_review_def Let_def bind_def process_message_def invoke_def)

lemma generate_review_returns:
  assumes "model self = Some client" and "backend_replies w = Inr text # rest"
  shows "\<exists>session w'. generate_review self product profile w = (Inr session, w')
           \<and> final_review session = Some text \<and> backend_replies w' = rest"
  using assms
  by (cases "clock w")
     (simp_all add: generate_review_def Let_def bind_def process_message_def invoke_def
        add_message_def get_timestamp_def return_def parse_ai_response_def)

lemma review_loop_spec:
  assumes "model reviewer = Some client"
  shows "\<exists>new w'. review_loop reviewer product ps acc w = (Inr (acc @ new), w')
           \<and> map persona new = map persona_dict (succeeded ps (backend_replies w))
           \<and> map review new = map Some (reply_texts ps (backend_replies w))"
proof (induction ps arbitrary: acc w)
  case Nil
  show ?case by (simp add: return_def)
next
  case (Cons p ps)
  show ?case
  proof (cases "backend_replies w")
    case Nil
    from generate_review_raises(1) [OF assms Nil]
    have g: "generate_review reviewer product (to_reviewer_profile p) w
               = (Inl (BackendError []), w)" .
    from Cons.IH [of acc w] Nil g show ?thesis
      by (cases ps) auto
  next
    case (Cons r rest)
    show ?thesis
    proof (cases r)
      case (Inl msg)
      from generate_review_raises(2) [OF assms, of w msg rest] Cons Inl
      have g: "generate_review reviewer product (to_reviewer_profile p) w
               = (Inl (BackendError msg), w\<lparr>backend_replies := rest\<rparr>)" by simp
      from Cons.IH [of acc "w\<lparr>backend_replies := rest\<rparr>"] g Cons Inl show ?thesis
        by auto
    next
      case (Inr body)
      from generate_review_returns [OF assms, of w body rest] Cons Inr
      obtain session w1 where
        g: "generate_review reviewer product (to_reviewer_profile p) w = (Inr session, w1)"
        and f: "final_review session = Some body" and b: "backend_replies w1 = rest"
        by blast
      from Cons.IH [of "acc @ [new_review_entry p session]" w1] obtain new w' where
        "review_loop reviewer product ps (acc @ [new_review_entry p session]) w1
           = (Inr ((acc @ [new_review_entry p session]) @ new), w')"
        "map persona new = map persona_dict (succeeded ps (backend_replies w1))"
        "map review new = map Some (reply_texts ps (backend_replies w1))"
        by blast
      with g f b Cons Inr show ?thesis
        by (intro exI [of _ "new_review_entry p session # new"] exI [of _ w'])
           (simp add: new_review_entry_def)
    qed
  qed
qed

lemma summarize_reviews_returns:
  "\<exists>summary w'. summarize_reviews raw_decode self reviews info w = (Inr summary, w')"
  by (cases "invoke (summarizer_model self)
               [SystemMessage summarizer_system_message,
                HumanMessage (create_summary_prompt reviews info)] w")
     (auto simp: summarize_reviews_def Let_def split: sum.splits)

text \<open>
  C4. Once the personas are selected and the reviewer is constructed, the loop never
  raises: a persona whose call raises is skipped and the loop goes on. The entries of the
  list \<open>reviews\<close> are, in the order of the personas, those of the personas whose call
  returned, each with the text returned. \<open>generate_product_reviews\<close> returns, with
  \<open>total_personas\<close> the number of selected personas and \<open>successful_reviews\<close> the number of
  entries, which is at most \<open>total_personas\<close>.
\<close>

theorem generate_product_reviews_partial_failure:
  assumes sel: "get_selected_personas (persona_criteria cfg) (num_personas cfg)
                  (randomize_if_insufficient cfg) w = (Inr ps, w1)"
    and init: "ProductReviewer_init make_client (ai_provider cfg) (config_api_key cfg)
                  (config_model_config cfg) = Inr reviewer"
  shows "\<exists>reviews w2 result w3.
           review_loop reviewer product ps [] w1 = (Inr reviews, w2)
           \<and> map persona reviews = map persona_dict (succeeded ps (backend_replies w1))
           \<and> map review reviews = map Some (reply_texts ps (backend_replies w1))
           \<and> subseq (map persona reviews) (map persona_dict ps)
           \<and> generate_product_reviews make_client raw_decode summarizer product cfg w
               = (Inr result, w3)
           \<and> total_personas (result_metadata result) = int (length ps)
           \<and> successful_reviews (result_metadata result) = int (length reviews)
           \<and> successful_reviews (result_metadata result)
               \<le> total_personas (result_metadata result)"
proof -
  from init obtain client where m: "model reviewer = Some client"
    by (auto simp: ProductReviewer_init_def initialize_model_def split: sum.splits)
  from review_loop_spec [OF m, of product ps "[]" w1] obtain reviews w2 where
    loop: "review_loop reviewer product ps [] w1 = (Inr reviews, w2)"
    and pers: "map persona reviews = map persona_dict (succeeded ps (backend_replies w1))"
    and texts: "map review reviews = map Some (reply_texts ps (backend_replies w1))"
    by auto
  have sub: "subseq (map persona reviews) (map persona_dict ps)"
    unfolding pers by (rule subseq_map) (rule subseq_succeeded)
  have "length reviews = length (succeeded ps (backend_replies w1))"
    using pers [THEN arg_cong, of length] by simp
  then have le: "length reviews \<le> length ps"
    using length_succeeded [of ps "backend_replies w1"] by simp
  let ?info = "[(''name'', product_name product), (''description'', description product),
                (''price'', price product), (''category'', ''N/A'')]"
  from summarize_reviews_returns [of raw_decode summarizer "map review reviews" "Some ?info" w2]
  obtain summary w3 where
    sum: "summarize_reviews raw_decode summarizer (map review reviews) (Some ?info) w2
            = (Inr summary, w3)"
    by blast
  let ?result = "\<lparr>result_product = ?info, result_summary = summary,
                   result_metadata = \<lparr>total_personas = int (length ps),
                                       successful_reviews = int (length reviews),
                                       metadata_ai_provider = ai_provider cfg\<rparr>\<rparr>"
  have "generate_product_reviews make_client raw_decode summarizer product cfg w
          = (Inr ?result, w3)"
    using sel init loop sum
    by (simp add: generate_product_reviews_def bind_def lift_def Let_def return_def)
  with loop pers texts sub le show ?thesis
    by (intro exI [of _ reviews] exI [of _ w2] exI [of _ ?result] exI [of _ w3]) simp
qed

theorem generate_product_reviews_partial_failure_witness:
  "\<exists>result w'.
     generate_product_reviews (\<lambda>p kwargs. Inr kwargs)
        (example_decoder example_summary_json (PDict (ReviewSummary_dict example_summary)))
        \<lparr>summarizer_model = Map.empty\<rparr> example_product example_configuration
        example_panel_world = (Inr result, w')
     \<and> total_personas (result_metadata result) = 5
     \<and> successful_reviews (result_metadata result) = 4"
proof -
  let ?mk = "\<lambda>(p :: AIProvider) (kwargs :: config). (Inr kwargs :: py_exception + config)"
  let ?rd = "example_decoder example_summary_json (PDict (ReviewSummary_dict example_summary))"
  let ?sm = "\<lparr>summarizer_model = (Map.empty :: config)\<rparr>"
  let ?c = "persona_criteria example_configuration"
  have c: "num_personas example_configuration = 5"
    "randomize_if_insufficient example_configuration = True"
    "ai_provider example_configuration = ''gemini''"
    "config_api_key example_configuration = ''secret''"
    "config_model_config example_configuration = None"
    by (simp_all add: example_configuration_def)
  have ps: "fst (get_selected_personas ?c 5 True example_panel_world) = Inr example_panel"
    by code_simp
  have rs: "backend_replies (snd (get_selected_personas ?c 5 True example_panel_world))
             = backend_replies example_panel_world"
    by code_simp
  obtain w1 where
    sel: "get_selected_personas ?c 5 True example_panel_world = (Inr example_panel, w1)"
    using ps by (cases "get_selected_personas ?c 5 True example_panel_world") simp
  with rs have rs1: "backend_replies w1 = backend_replies example_panel_world" by simp
  have low: "str_lower ''gemini'' = ''gemini''" by code_simp
  obtain reviewer where
    init: "ProductReviewer_init ?mk ''gemini'' ''secret'' None = Inr reviewer"
    by (simp add: ProductReviewer_init_def low AIProvider_of_def initialize_model_def)
  have four: "length (succeeded example_panel (backend_replies example_panel_world)) = 4"
    by (simp add: example_panel_def example_panel_world_def)
  from generate_product_reviews_partial_failure
    [where cfg = example_configuration and make_client = ?mk and raw_decode = ?rd
       and summarizer = ?sm and product = example_product, unfolded c, OF sel init]
  show ?thesis
  proof (elim exE conjE)
    fix reviews w2 result w3
    assume pers: "map persona reviews
                    = map persona_dict (succeeded example_panel (backend_replies w1))"
      and run: "generate_product_reviews ?mk ?rd ?sm example_product example_configuration
                  example_panel_world = (Inr result, w3)"
      and total: "total_personas (result_metadata result) = int (length example_panel)"
      and succ: "successful_reviews (result_metadata result) = int (length reviews)"
    from pers have "length reviews = 4"
      using four rs1 map_eq_imp_length_eq by fastforce
    with run total succ show ?thesis
      by (intro exI [of _ result] exI [of _ w3]) (simp add: example_panel_def)
  qed
qed

end
